theory Spec2Isabelle
  imports Main "HOL-Library.Sublist"
begin

section \<open>Panorama tile crawler: download\_and\_convert.py\<close>

text \<open>
  The program probes a tile server for the grid of each cube face, fetches the tiles
  (with an on-disk cache and a fallback to coarser pyramid levels), pastes them into
  one image per face and projects the six faces to an equirectangular panorama.

  Everything the Python does beyond returning a value is explicit here: the file system
  and the list of network requests issued so far form a \<open>world\<close> that every operation
  takes and returns; the network and the disk's failures are given by an \<open>env\<close>;
  a raised exception is the \<open>Inl\<close> of a sum. Log messages are not modelled.
\<close>

subsection \<open>Data\<close>

type_synonym url = string
type_synonym path = string

text \<open>
  A PIL image, kept symbolically: what was decoded and which operations were applied.
  \<open>Raster i w h\<close> is an image as a server holds it (an identifier, width, height).
\<close>

datatype picture =
    Raster nat int int
  | New_image int int
  | Crop picture int int int int
  | Resize picture int int
  | Paste picture picture int int
  | Projected picture picture picture picture picture picture int int

text \<open>
  A file either decodes to a picture or is not an image at all. \<open>Truncated c\<close> is what is
  left on the disk when writing \<open>c\<close> fails after the file has been opened for writing: it
  is not an image, and it is not \<open>c\<close>.
\<close>

datatype content = Junk | Jpeg picture | Truncated content

datatype request = Head url | Get url

text \<open>
  \<open>Reply s b\<close>: the server answered with status \<open>s\<close>; \<open>b\<close> is the body, \<open>None\<close> when
  reading it fails. \<open>No_reply\<close>: timeout or any transport error.
\<close>

datatype response = Reply int "content option" | No_reply

datatype error =
    FileNotFoundError path
  | UnidentifiedImageError path
  | OSError path
  | KeyError string
  | ProjectionError

record world =
  files :: "(path \<times> content) list"
  dirs :: "path list"
  log :: "request list"

text \<open>
  \<open>respond n r\<close> is the network's answer to request \<open>r\<close> when it is the \<open>n\<close>-th request
  of the run, so a server may change its mind over time. \<open>disk_ok p\<close>: creating the
  directory \<open>p\<close>, or opening the file \<open>p\<close> for writing, succeeds. \<open>write_ok p\<close>: writing the
  data to the opened file \<open>p\<close> succeeds. \<open>removable p\<close>: deleting \<open>p\<close> succeeds. \<open>c2e_ok\<close>: the external
  projection accepts these six faces.
\<close>

record env =
  respond :: "nat \<Rightarrow> request \<Rightarrow> response"
  disk_ok :: "path \<Rightarrow> bool"
  write_ok :: "path \<Rightarrow> bool"
  removable :: "path \<Rightarrow> bool"
  c2e_ok :: "picture list \<Rightarrow> bool"

definition OUT_DIR :: path where "OUT_DIR = ''panoramas''"
definition TEMP_DIR :: path where "TEMP_DIR = ''temp_tiles''"
definition FACES :: "string list" where
  "FACES = [''f'', ''b'', ''l'', ''r'', ''u'', ''d'']"
definition TILE_SIZE :: int where "TILE_SIZE = 512"

subsection \<open>Strings and paths\<close>

definition digit_char :: "nat \<Rightarrow> char" where
  "digit_char d = ''0123456789'' ! d"

fun str_nat :: "nat \<Rightarrow> string" where
  "str_nat n = (if n < 10 then [digit_char n] else str_nat (n div 10) @ [digit_char (n mod 10)])"

declare str_nat.simps [simp del]

text \<open>Python's \<open>str\<close> of an int, as an f-string renders it.\<close>

definition str_int :: "int \<Rightarrow> string" where
  "str_int i = (if i < 0 then CHR ''-'' # str_nat (nat (- i)) else str_nat (nat i))"

definition ends_with_slash :: "string \<Rightarrow> bool" where
  "ends_with_slash s = (s \<noteq> [] \<and> last s = CHR ''/'')"

definition ensure_slash :: "url \<Rightarrow> url" where
  "ensure_slash u = (if ends_with_slash u then u else u @ ''/'')"

definition build_version_suffix :: "string \<Rightarrow> string" where
  "build_version_suffix version =
     (if version = [] then []
      else if take 1 version = ''?'' then version else ''?v='' @ version)"

text \<open>\<open>os.path.join\<close> (POSIX) of two components, and of three.\<close>

definition path_join :: "path \<Rightarrow> path \<Rightarrow> path" where
  "path_join a b =
     (if take 1 b = ''/'' then b
      else if a = [] \<or> ends_with_slash a then a @ b
      else a @ ''/'' @ b)"

definition path_join3 :: "path \<Rightarrow> path \<Rightarrow> path \<Rightarrow> path" where
  "path_join3 a b c = path_join (path_join a b) c"

text \<open>\<open>os.path.dirname\<close> (POSIX).\<close>

definition dirname :: "path \<Rightarrow> path" where
  "dirname p =
     (let hd_part = rev (dropWhile (\<lambda>c. c \<noteq> CHR ''/'') (rev p))
      in if hd_part \<noteq> [] \<and> \<not> list_all (\<lambda>c. c = CHR ''/'') hd_part
         then rev (dropWhile (\<lambda>c. c = CHR ''/'') (rev hd_part))
         else hd_part)"

text \<open>The directories \<open>os.makedirs d\<close> makes sure of: the proper ancestors of \<open>d\<close> and \<open>d\<close>.\<close>

definition dir_chain :: "path \<Rightarrow> path list" where
  "dir_chain d = [take i d. i \<leftarrow> [1..<length d], d ! i = CHR ''/''] @ [d]"

text \<open>\<open>p\<close> is \<open>root\<close> or lies below it.\<close>

definition path_under :: "path \<Rightarrow> path \<Rightarrow> bool" where
  "path_under root p = (p = root \<or> prefix (ensure_slash root) p)"

definition tile_url :: "url \<Rightarrow> string \<Rightarrow> string \<Rightarrow> int \<Rightarrow> int \<Rightarrow> int \<Rightarrow> string \<Rightarrow> url" where
  "tile_url base_url pano_id face level x y version_suffix =
     base_url @ pano_id @ ''/'' @ face @ ''/'' @ str_int level @ ''/'' @
     str_int x @ ''_'' @ str_int y @ ''.jpg'' @ version_suffix"

definition tile_file :: "int \<Rightarrow> int \<Rightarrow> int \<Rightarrow> string" where
  "tile_file level x y = str_int level @ ''_'' @ str_int x @ ''_'' @ str_int y @ ''.jpg''"

subsection \<open>The file system\<close>

definition is_file :: "world \<Rightarrow> path \<Rightarrow> bool" where
  "is_file w p = (map_of (files w) p \<noteq> None)"

definition path_exists :: "world \<Rightarrow> path \<Rightarrow> bool" where
  "path_exists w p = (is_file w p \<or> p \<in> set (dirs w))"

text \<open>
  \<open>os.makedirs(d, exist_ok=True)\<close>: \<open>None\<close> when it raises (the empty path, a file in
  the way, or the disk refusing).
\<close>

definition makedirs :: "env \<Rightarrow> world \<Rightarrow> path \<Rightarrow> world option" where
  "makedirs e w d =
     (if d = [] \<or> is_file w d \<or> \<not> disk_ok e d then None
      else Some (w\<lparr>dirs := List.union (dirs w) (dir_chain d)\<rparr>))"

text \<open>
  Opening \<open>p\<close> for writing (\<open>open(p, "wb")\<close>, or the \<open>save\<close> of an image) and writing \<open>c\<close>. The
  result is \<open>False\<close> when an exception is raised. Opening creates the file, or empties the
  one that is there, before anything is written: when the write then fails, a truncated
  file stays at \<open>p\<close>.
\<close>

definition write_file :: "env \<Rightarrow> world \<Rightarrow> path \<Rightarrow> content \<Rightarrow> bool \<times> world" where
  "write_file e w p c =
     (if p \<in> set (dirs w) \<or> \<not> disk_ok e p then (False, w)
      else if \<not> write_ok e p
        then (False, w\<lparr>files := (p, Truncated c) # filter (\<lambda>(q, _). q \<noteq> p) (files w)\<rparr>)
      else (True, w\<lparr>files := (p, c) # filter (\<lambda>(q, _). q \<noteq> p) (files w)\<rparr>))"

text \<open>
  \<open>Image.open\<close>: raises when there is no such file, when the path is a directory, or
  when the file is not an image.
\<close>

definition image_open :: "world \<Rightarrow> path \<Rightarrow> error + picture" where
  "image_open w p =
     (case map_of (files w) p of
        None \<Rightarrow> if p \<in> set (dirs w) then Inl (OSError p) else Inl (FileNotFoundError p)
      | Some Junk \<Rightarrow> Inl (UnidentifiedImageError p)
      | Some (Truncated c) \<Rightarrow> Inl (UnidentifiedImageError p)
      | Some (Jpeg pic) \<Rightarrow> Inr pic)"

text \<open>
  \<open>shutil.rmtree(root, ignore_errors=True)\<close>: never raises. A file below \<open>root\<close> goes
  when it is removable; a directory below \<open>root\<close> goes when it is removable and nothing
  below it stays.
\<close>

definition rmtree :: "env \<Rightarrow> world \<Rightarrow> path \<Rightarrow> world" where
  "rmtree e w root =
     (let stays = (\<lambda>p. \<not> path_under root p \<or> \<not> removable e p);
          blocked = (\<lambda>d. list_ex (\<lambda>(p, _). path_under d p \<and> stays p) (files w) \<or>
                          list_ex (\<lambda>p. path_under d p \<and> stays p) (dirs w))
      in w\<lparr>files := filter (\<lambda>(p, _). stays p) (files w),
            dirs := filter (\<lambda>d. stays d \<or> blocked d) (dirs w)\<rparr>)"

text \<open>The size \<open>(width, height)\<close> of a picture.\<close>

fun psize :: "picture \<Rightarrow> int \<times> int" where
  "psize (Raster i w h) = (w, h)"
| "psize (New_image w h) = (w, h)"
| "psize (Crop p l u r d) = (r - l, d - u)"
| "psize (Resize p w h) = (w, h)"
| "psize (Paste p t ox oy) = psize p"
| "psize (Projected f r b l u d h w) = (w, h)"

text \<open>What has been pasted on a picture, oldest first: offset and pasted picture.\<close>

fun pastes :: "picture \<Rightarrow> ((int \<times> int) \<times> picture) list" where
  "pastes (Paste p t ox oy) = pastes p @ [((ox, oy), t)]"
| "pastes p = []"

subsection \<open>Network\<close>

definition issue :: "world \<Rightarrow> request \<Rightarrow> world" where
  "issue w r = w\<lparr>log := log w @ [r]\<rparr>"

text \<open>\<open>url_exists\<close>: a HEAD request; status 200 is a hit, anything else a miss.\<close>

definition url_exists :: "env \<Rightarrow> world \<Rightarrow> url \<Rightarrow> bool \<times> world" where
  "url_exists e w u =
     (case respond e (length (log w)) (Head u) of
        Reply s b \<Rightarrow> (s = 200, issue w (Head u))
      | No_reply \<Rightarrow> (False, issue w (Head u)))"

text \<open>
  \<open>fetch_tile\<close>: a cache hit when \<open>out_path\<close> exists; otherwise one GET, and on status
  200 the body is written to \<open>out_path\<close>. The bare \<open>except\<close> turns every failure after
  the cache test into \<open>False\<close>.
\<close>

definition fetch_tile :: "env \<Rightarrow> world \<Rightarrow> url \<Rightarrow> path \<Rightarrow> bool \<times> world" where
  "fetch_tile e w u out_path =
     (if path_exists w out_path then (True, w)
      else
        (let w1 = issue w (Get u) in
         case respond e (length (log w)) (Get u) of
           No_reply \<Rightarrow> (False, w1)
         | Reply s body \<Rightarrow>
             if s = 200 then
               (case body of
                  None \<Rightarrow> (False, w1)
                | Some data \<Rightarrow>
                    (case makedirs e w1 (dirname out_path) of
                       None \<Rightarrow> (False, w1)
                     | Some w2 \<Rightarrow> write_file e w2 out_path data))
             else (False, w1)))"

subsection \<open>Grid probing\<close>

text \<open>
  One scan of \<open>detect_max_grid\<close>: \<open>for i in range(max_check)\<close>, remembering the last
  hit and leaving the loop at the first miss. \<open>mk\<close> builds the URL of index \<open>i\<close>.
\<close>

fun probe_loop :: "env \<Rightarrow> world \<Rightarrow> (int \<Rightarrow> url) \<Rightarrow> int list \<Rightarrow> int \<Rightarrow> int \<times> world" where
  "probe_loop e w mk [] cur = (cur, w)"
| "probe_loop e w mk (i # is) cur =
     (case url_exists e w (mk i) of
        (True, w') \<Rightarrow> probe_loop e w' mk is i
      | (False, w') \<Rightarrow> (cur, w'))"

definition detect_max_grid ::
  "env \<Rightarrow> world \<Rightarrow> url \<Rightarrow> string \<Rightarrow> string \<Rightarrow> string \<Rightarrow> int \<Rightarrow> int \<Rightarrow> (int \<times> int) \<times> world" where
  "detect_max_grid e w base_url pano_id face version_suffix level max_check =
     (let (max_x, w1) =
            probe_loop e w (\<lambda>x. tile_url base_url pano_id face level x 0 version_suffix)
              [0..max_check - 1] (- 1);
          (max_y, w2) =
            probe_loop e w1 (\<lambda>y. tile_url base_url pano_id face level 0 y version_suffix)
              [0..max_check - 1] (- 1)
      in ((max_x, max_y), w2))"

subsection \<open>Tiles with fallback\<close>

text \<open>
  \<open>get_tile_with_fallback\<close> and its \<open>for fallback_level in range(level-1, -1, -1)\<close>
  loop, \<open>fallback_loop\<close>, whose last argument is the loop variable. In every call that
  \<open>get_tile_with_fallback\<close> makes, \<open>fallback_level < level\<close>, so the exponent is positive.
\<close>

function
  get_tile_with_fallback ::
    "env \<Rightarrow> world \<Rightarrow> url \<Rightarrow> string \<Rightarrow> string \<Rightarrow> int \<Rightarrow> int \<Rightarrow> int \<Rightarrow> string \<Rightarrow> path
       \<Rightarrow> (error + picture option) \<times> world"
and
  fallback_loop ::
    "env \<Rightarrow> world \<Rightarrow> url \<Rightarrow> string \<Rightarrow> string \<Rightarrow> int \<Rightarrow> int \<Rightarrow> int \<Rightarrow> string \<Rightarrow> path \<Rightarrow> int
       \<Rightarrow> (error + picture option) \<times> world"
where
  "get_tile_with_fallback e w base_url pano_id face level x y version_suffix cache_dir =
     (let out_path = path_join cache_dir (tile_file level x y);
          u = tile_url base_url pano_id face level x y version_suffix
      in case fetch_tile e w u out_path of
           (True, w1) \<Rightarrow>
             (case image_open w1 out_path of
                Inl err \<Rightarrow> (Inl err, w1)
              | Inr pic \<Rightarrow> (Inr (Some pic), w1))
         | (False, w1) \<Rightarrow>
             fallback_loop e w1 base_url pano_id face level x y version_suffix cache_dir
               (level - 1))"
| "fallback_loop e w base_url pano_id face level x y version_suffix cache_dir fallback_level =
     (if fallback_level < 0 then (Inr None, w)
      else
        (let scale = 2 ^ nat (level - fallback_level);
             fx = x div scale;
             fy = y div scale
         in case get_tile_with_fallback e w base_url pano_id face fallback_level fx fy
                   version_suffix cache_dir of
              (Inl err, w') \<Rightarrow> (Inl err, w')
            | (Inr (Some sub_tile), w') \<Rightarrow>
                (let sub_size = TILE_SIZE div scale;
                     cx = (x mod scale) * sub_size;
                     cy = (y mod scale) * sub_size
                 in (Inr (Some (Resize (Crop sub_tile cx cy (cx + sub_size) (cy + sub_size))
                                  TILE_SIZE TILE_SIZE)), w'))
            | (Inr None, w') \<Rightarrow>
                fallback_loop e w' base_url pano_id face level x y version_suffix cache_dir
                  (fallback_level - 1)))"
  by pat_completeness auto

termination
  by (relation "inv_image (less_than <*lex*> less_than)
        (\<lambda>a. case a of
           Inl (e, w, b, p, f, level, r) \<Rightarrow> (Suc (nat level), 0)
         | Inr (e, w, b, p, f, level, x, y, v, c, fl) \<Rightarrow>
             (nat (max level (fl + 1)), nat (fl + 1)))")
     auto

declare get_tile_with_fallback.simps [simp del] fallback_loop.simps [simp del]

text \<open>
  The same two functions with a budget of nested calls: \<open>get_tile_fuel n\<close> may have at
  most \<open>n\<close> activations of \<open>get_tile_with_fallback\<close> on the stack, itself included, and
  is \<open>None\<close> when that is not enough. The loop hands its budget to every iteration.
\<close>

function
  get_tile_fuel ::
    "nat \<Rightarrow> env \<Rightarrow> world \<Rightarrow> url \<Rightarrow> string \<Rightarrow> string \<Rightarrow> int \<Rightarrow> int \<Rightarrow> int \<Rightarrow> string \<Rightarrow> path
       \<Rightarrow> ((error + picture option) \<times> world) option"
and
  fallback_fuel ::
    "nat \<Rightarrow> env \<Rightarrow> world \<Rightarrow> url \<Rightarrow> string \<Rightarrow> string \<Rightarrow> int \<Rightarrow> int \<Rightarrow> int \<Rightarrow> string \<Rightarrow> path \<Rightarrow> int
       \<Rightarrow> ((error + picture option) \<times> world) option"
where
  "get_tile_fuel 0 e w base_url pano_id face level x y version_suffix cache_dir = None"
| "get_tile_fuel (Suc n) e w base_url pano_id face level x y version_suffix cache_dir =
     (let out_path = path_join cache_dir (tile_file level x y);
          u = tile_url base_url pano_id face level x y version_suffix
      in case fetch_tile e w u out_path of
           (True, w1) \<Rightarrow>
             (case image_open w1 out_path of
                Inl err \<Rightarrow> Some (Inl err, w1)
              | Inr pic \<Rightarrow> Some (Inr (Some pic), w1))
         | (False, w1) \<Rightarrow>
             fallback_fuel n e w1 base_url pano_id face level x y version_suffix cache_dir
               (level - 1))"
| "fallback_fuel n e w base_url pano_id face level x y version_suffix cache_dir fallback_level =
     (if fallback_level < 0 then Some (Inr None, w)
      else
        (let scale = 2 ^ nat (level - fallback_level);
             fx = x div scale;
             fy = y div scale
         in case get_tile_fuel n e w base_url pano_id face fallback_level fx fy
                   version_suffix cache_dir of
              None \<Rightarrow> None
            | Some (Inl err, w') \<Rightarrow> Some (Inl err, w')
            | Some (Inr (Some sub_tile), w') \<Rightarrow>
                (let sub_size = TILE_SIZE div scale;
                     cx = (x mod scale) * sub_size;
                     cy = (y mod scale) * sub_size
                 in Some (Inr (Some (Resize (Crop sub_tile cx cy (cx + sub_size) (cy + sub_size))
                                  TILE_SIZE TILE_SIZE)), w'))
            | Some (Inr None, w') \<Rightarrow>
                fallback_fuel n e w' base_url pano_id face level x y version_suffix cache_dir
                  (fallback_level - 1)))"
  by pat_completeness auto

termination
  by (relation "inv_image (less_than <*lex*> less_than)
        (\<lambda>a. case a of
           Inl (n, r) \<Rightarrow> (n, 0)
         | Inr (n, e, w, b, p, f, level, x, y, v, c, fl) \<Rightarrow> (n, nat (fl + 1)))")
     auto

declare get_tile_fuel.simps [simp del] fallback_fuel.simps [simp del]

subsection \<open>Assembling a face\<close>

text \<open>
  The inner loop \<open>for y in range(max_y+1)\<close> of \<open>download_and_merge_face\<close> for one \<open>x\<close>,
  and the outer loop \<open>for x in range(max_x+1)\<close>. \<open>pano\<close> is the canvas being painted.
\<close>

fun merge_row ::
  "env \<Rightarrow> world \<Rightarrow> url \<Rightarrow> string \<Rightarrow> string \<Rightarrow> string \<Rightarrow> path \<Rightarrow> int \<Rightarrow> int \<Rightarrow> int list \<Rightarrow> picture
     \<Rightarrow> (error + picture) \<times> world" where
  "merge_row e w base_url pano_id face version_suffix face_dir level x [] pano = (Inr pano, w)"
| "merge_row e w base_url pano_id face version_suffix face_dir level x (y # ys) pano =
     (case get_tile_with_fallback e w base_url pano_id face level x y version_suffix face_dir of
        (Inl err, w') \<Rightarrow> (Inl err, w')
      | (Inr (Some tile), w') \<Rightarrow>
          merge_row e w' base_url pano_id face version_suffix face_dir level x ys
            (Paste pano tile (y * TILE_SIZE) (x * TILE_SIZE))
      | (Inr None, w') \<Rightarrow>
          merge_row e w' base_url pano_id face version_suffix face_dir level x ys pano)"

fun merge_grid ::
  "env \<Rightarrow> world \<Rightarrow> url \<Rightarrow> string \<Rightarrow> string \<Rightarrow> string \<Rightarrow> path \<Rightarrow> int \<Rightarrow> int list \<Rightarrow> int list \<Rightarrow> picture
     \<Rightarrow> (error + picture) \<times> world" where
  "merge_grid e w base_url pano_id face version_suffix face_dir level [] ys pano = (Inr pano, w)"
| "merge_grid e w base_url pano_id face version_suffix face_dir level (x # xs) ys pano =
     (case merge_row e w base_url pano_id face version_suffix face_dir level x ys pano of
        (Inl err, w') \<Rightarrow> (Inl err, w')
      | (Inr pano', w') \<Rightarrow>
          merge_grid e w' base_url pano_id face version_suffix face_dir level xs ys pano')"

definition download_and_merge_face ::
  "env \<Rightarrow> world \<Rightarrow> url \<Rightarrow> string \<Rightarrow> string \<Rightarrow> string \<Rightarrow> path \<Rightarrow> int
     \<Rightarrow> (error + path option) \<times> world" where
  "download_and_merge_face e w base_url pano_id face version_suffix save_dir level =
     (let face_dir = path_join3 TEMP_DIR pano_id face in
      case makedirs e w save_dir of
        None \<Rightarrow> (Inl (OSError save_dir), w)
      | Some w0 \<Rightarrow>
          (case detect_max_grid e w0 base_url pano_id face version_suffix level 10 of
             ((max_x, max_y), w1) \<Rightarrow>
               if max_x < 0 \<or> max_y < 0 then (Inr None, w1)
               else
                 (let width = (max_x + 1) * TILE_SIZE;
                      height = (max_y + 1) * TILE_SIZE;
                      pano = New_image width height
                  in case merge_grid e w1 base_url pano_id face version_suffix face_dir level
                            [0..max_x] [0..max_y] pano of
                       (Inl err, w2) \<Rightarrow> (Inl err, w2)
                     | (Inr pano', w2) \<Rightarrow>
                         (let out_path = path_join save_dir (face @ ''.jpg'') in
                          case write_file e w2 out_path (Jpeg pano') of
                            (False, w3) \<Rightarrow> (Inl (OSError out_path), w3)
                          | (True, w3) \<Rightarrow> (Inr (Some out_path), w3)))))"

subsection \<open>Projection\<close>

text \<open>
  The first loop of \<open>merge_to_equirect\<close>: every face file must exist and is opened;
  the result is the dictionary \<open>face_images\<close>.
\<close>

fun load_faces :: "world \<Rightarrow> path \<Rightarrow> string list \<Rightarrow> error + (string \<times> picture) list" where
  "load_faces w pano_dir [] = Inr []"
| "load_faces w pano_dir (face # fs) =
     (let face_path = path_join pano_dir (face @ ''.jpg'') in
      if \<not> path_exists w face_path then Inl (FileNotFoundError face_path)
      else
        (case image_open w face_path of
           Inl err \<Rightarrow> Inl err
         | Inr im \<Rightarrow>
             (case load_faces w pano_dir fs of
                Inl err \<Rightarrow> Inl err
              | Inr face_images \<Rightarrow> Inr ((face, im) # face_images))))"

definition merge_to_equirect :: "env \<Rightarrow> world \<Rightarrow> path \<Rightarrow> path \<Rightarrow> int \<Rightarrow> (error + unit) \<times> world" where
  "merge_to_equirect e w pano_dir out_path face_size =
     (case load_faces w pano_dir FACES of
        Inl err \<Rightarrow> (Inl err, w)
      | Inr face_images \<Rightarrow>
          (case (map_of face_images ''f'', map_of face_images ''r'', map_of face_images ''b'',
                 map_of face_images ''l'', map_of face_images ''u'', map_of face_images ''d'') of
             (Some f, Some r, Some b, Some l, Some u, Some d) \<Rightarrow>
               (let out_h = face_size * 2;
                    out_w = face_size * 4
                in if \<not> c2e_ok e [f, r, b, l, u, d] then (Inl ProjectionError, w)
                   else
                     (case write_file e w out_path (Jpeg (Projected f r b l u d out_h out_w)) of
                        (False, w') \<Rightarrow> (Inl (OSError out_path), w')
                      | (True, w') \<Rightarrow> (Inr (), w')))
           | _ \<Rightarrow> (Inl (KeyError ''face_images''), w)))"

subsection \<open>One panorama, and the run\<close>

record location =
  name :: string
  baseUrl :: url
  panoramas :: "string list"
  version :: string

text \<open>
  The loop over \<open>FACES\<close> in \<open>process_pano\<close>: every face is assembled at level 0, and the
  first face that yields a path fixes \<open>face_size\<close>.
\<close>

fun faces_loop ::
  "env \<Rightarrow> world \<Rightarrow> url \<Rightarrow> string \<Rightarrow> string \<Rightarrow> path \<Rightarrow> string list \<Rightarrow> int option
     \<Rightarrow> (error + int option) \<times> world" where
  "faces_loop e w base_url pano_id version_suffix pano_dir [] face_size = (Inr face_size, w)"
| "faces_loop e w base_url pano_id version_suffix pano_dir (face # fs) face_size =
     (case download_and_merge_face e w base_url pano_id face version_suffix pano_dir 0 of
        (Inl err, w') \<Rightarrow> (Inl err, w')
      | (Inr face_path, w') \<Rightarrow>
          (case face_path of
             Some fp \<Rightarrow>
               if fp \<noteq> [] \<and> face_size = None then
                 (case image_open w' fp of
                    Inl err \<Rightarrow> (Inl err, w')
                  | Inr im \<Rightarrow>
                      faces_loop e w' base_url pano_id version_suffix pano_dir fs
                        (Some (fst (psize im))))
               else faces_loop e w' base_url pano_id version_suffix pano_dir fs face_size
           | None \<Rightarrow> faces_loop e w' base_url pano_id version_suffix pano_dir fs face_size))"

definition process_pano :: "env \<Rightarrow> world \<Rightarrow> location \<Rightarrow> string \<Rightarrow> (error + unit) \<times> world" where
  "process_pano e w loc pano_id =
     (let version_suffix = build_version_suffix (version loc);
          base_url = baseUrl loc;
          pano_dir = path_join3 OUT_DIR (name loc) pano_id
      in case faces_loop e w base_url pano_id version_suffix pano_dir FACES None of
           (Inl err, w1) \<Rightarrow> (Inl err, w1)
         | (Inr face_size, w1) \<Rightarrow>
             (case face_size of
                None \<Rightarrow> (Inr (), w1)
              | Some fsz \<Rightarrow>
                  if fsz = 0 then (Inr (), w1)
                  else
                    (let equi_path = path_join3 OUT_DIR (name loc) (pano_id @ ''.jpg'') in
                     case merge_to_equirect e w1 pano_dir equi_path fsz of
                       (Inl err, w2) \<Rightarrow> (Inl err, w2)
                     | (Inr u, w2) \<Rightarrow> (Inr (), rmtree e (rmtree e w2 pano_dir) TEMP_DIR))))"

text \<open>
  \<open>main\<close> after \<open>load_data\<close>: the loop over the panorama ids of one location, and the
  loop over the locations. Nothing catches an exception here.
\<close>

fun pano_loop :: "env \<Rightarrow> world \<Rightarrow> location \<Rightarrow> string list \<Rightarrow> (error + unit) \<times> world" where
  "pano_loop e w loc [] = (Inr (), w)"
| "pano_loop e w loc (pano_id # rest) =
     (case process_pano e w loc pano_id of
        (Inl err, w') \<Rightarrow> (Inl err, w')
      | (Inr u, w') \<Rightarrow> pano_loop e w' loc rest)"

fun main :: "env \<Rightarrow> world \<Rightarrow> location list \<Rightarrow> (error + unit) \<times> world" where
  "main e w [] = (Inr (), w)"
| "main e w (loc # rest) =
     (case pano_loop e w loc (panoramas loc) of
        (Inl err, w') \<Rightarrow> (Inl err, w')
      | (Inr u, w') \<Rightarrow> main e w' rest)"

subsection \<open>Auxiliary notions for the statements\<close>

text \<open>The HEAD request for \<open>u\<close>, issued as the \<open>n\<close>-th request, is answered with status 200.\<close>

definition head_ok :: "env \<Rightarrow> nat \<Rightarrow> url \<Rightarrow> bool" where
  "head_ok e n u = (case respond e n (Head u) of Reply s b \<Rightarrow> s = 200 | No_reply \<Rightarrow> False)"

text \<open>
  How many of the indices \<open>is\<close>, probed one after the other from request number \<open>n\<close>
  on, are hits before the first miss.
\<close>

fun leading_hits :: "env \<Rightarrow> nat \<Rightarrow> (int \<Rightarrow> url) \<Rightarrow> int list \<Rightarrow> nat" where
  "leading_hits e n mk [] = 0"
| "leading_hits e n mk (i # is) =
     (if head_ok e n (mk i) then Suc (leading_hits e (Suc n) mk is) else 0)"

text \<open>A request for a level-0 tile of panorama \<open>pano_id\<close>.\<close>

definition level0_request :: "url \<Rightarrow> string \<Rightarrow> string \<Rightarrow> request \<Rightarrow> bool" where
  "level0_request base_url pano_id version_suffix r =
     (\<exists>face x y. r = Head (tile_url base_url pano_id face 0 x y version_suffix) \<or>
                 r = Get (tile_url base_url pano_id face 0 x y version_suffix))"

text \<open>The world \<open>w'\<close> comes from \<open>w\<close> by issuing requests for level-0 tiles only.\<close>

definition level0_run :: "url \<Rightarrow> string \<Rightarrow> string \<Rightarrow> world \<Rightarrow> world \<Rightarrow> bool" where
  "level0_run base_url pano_id version_suffix w w' =
     (\<exists>new. log w' = log w @ new \<and> list_all (level0_request base_url pano_id version_suffix) new)"

text \<open>
  The tiles of one row, and of the grid, that resolve: the calls the loops of
  \<open>download_and_merge_face\<close> make to \<open>get_tile_with_fallback\<close>, in their order, each
  result kept with its tile coordinates \<open>(x, y)\<close>. No canvas is involved.
\<close>

fun resolve_row ::
  "env \<Rightarrow> world \<Rightarrow> url \<Rightarrow> string \<Rightarrow> string \<Rightarrow> string \<Rightarrow> path \<Rightarrow> int \<Rightarrow> int \<Rightarrow> int list
     \<Rightarrow> (error + ((int \<times> int) \<times> picture) list) \<times> world" where
  "resolve_row e w base_url pano_id face version_suffix face_dir level x [] = (Inr [], w)"
| "resolve_row e w base_url pano_id face version_suffix face_dir level x (y # ys) =
     (case get_tile_with_fallback e w base_url pano_id face level x y version_suffix face_dir of
        (Inl err, w') \<Rightarrow> (Inl err, w')
      | (Inr tile, w') \<Rightarrow>
          (case resolve_row e w' base_url pano_id face version_suffix face_dir level x ys of
             (Inl err, w'') \<Rightarrow> (Inl err, w'')
           | (Inr ts, w'') \<Rightarrow>
               (Inr ((case tile of Some t \<Rightarrow> [((x, y), t)] | None \<Rightarrow> []) @ ts), w'')))"

fun resolve_grid ::
  "env \<Rightarrow> world \<Rightarrow> url \<Rightarrow> string \<Rightarrow> string \<Rightarrow> string \<Rightarrow> path \<Rightarrow> int \<Rightarrow> int list \<Rightarrow> int list
     \<Rightarrow> (error + ((int \<times> int) \<times> picture) list) \<times> world" where
  "resolve_grid e w base_url pano_id face version_suffix face_dir level [] ys = (Inr [], w)"
| "resolve_grid e w base_url pano_id face version_suffix face_dir level (x # xs) ys =
     (case resolve_row e w base_url pano_id face version_suffix face_dir level x ys of
        (Inl err, w') \<Rightarrow> (Inl err, w')
      | (Inr ts, w') \<Rightarrow>
          (case resolve_grid e w' base_url pano_id face version_suffix face_dir level xs ys of
             (Inl err, w'') \<Rightarrow> (Inl err, w'')
           | (Inr ts', w'') \<Rightarrow> (Inr (ts @ ts'), w'')))"

subsection \<open>Example servers\<close>

definition empty_world :: world where
  "empty_world = \<lparr>files = [], dirs = [], log = []\<rparr>"

text \<open>An environment whose disk never fails, around a given network.\<close>

definition good_disk :: "(nat \<Rightarrow> request \<Rightarrow> response) \<Rightarrow> env" where
  "good_disk net = \<lparr>respond = net, disk_ok = (\<lambda>p. True), write_ok = (\<lambda>p. True),
                     removable = (\<lambda>p. True),
                     c2e_ok = (\<lambda>fs. True)\<rparr>"

text \<open>Nothing is there: every request is answered 404.\<close>

definition no_tiles :: env where
  "no_tiles = good_disk (\<lambda>n r. Reply 404 None)"

text \<open>Only the level-0 tile of face \<open>f\<close> can be fetched (scenario B of the specification).\<close>

definition only_root :: env where
  "only_root = good_disk (\<lambda>n r.
     if r = Get ''http://h/p/f/0/0_0.jpg'' then Reply 200 (Some (Jpeg (Raster 7 512 512)))
     else Reply 404 None)"


text \<open>
  Face \<open>f\<close> of panorama \<open>p\<close> has one tile at level 0, which answers HEAD, but what GET
  returns for it is not an image.
\<close>

definition junk_face :: env where
  "junk_face = good_disk (\<lambda>n r.
     if r = Head ''http://h/p/f/0/0_0.jpg'' then Reply 200 None
     else if r = Get ''http://h/p/f/0/0_0.jpg'' then Reply 200 (Some Junk)
     else Reply 404 None)"

text \<open>The level-0 tile of face \<open>f\<close> is a 256 by 256 image.\<close>

definition small_root :: env where
  "small_root = good_disk (\<lambda>n r.
     if r = Get ''http://h/p/f/0/0_0.jpg'' then Reply 200 (Some (Jpeg (Raster 3 256 256)))
     else Reply 404 None)"

text \<open>Panorama \<open>p\<close> has face \<open>f\<close> only, one tile; the other five faces have no tiles.\<close>

definition one_face :: env where
  "one_face = good_disk (\<lambda>n r.
     if r = Get ''http://h/p/f/0/0_0.jpg'' then Reply 200 (Some (Jpeg (Raster 7 512 512)))
     else if r = Head ''http://h/p/f/0/0_0.jpg'' then Reply 200 None
     else Reply 404 None)"

text \<open>
  Face \<open>f\<close> of panorama \<open>p\<close> has the tiles \<open>0_0\<close>, \<open>1_0\<close> and \<open>2_0\<close> at level 0 (scenario A
  of the specification); tile \<open>1_0\<close> answers HEAD but cannot be fetched.
\<close>

definition three_columns :: env where
  "three_columns = good_disk (\<lambda>n r.
     if r = Head ''http://h/p/f/0/0_0.jpg'' \<or> r = Head ''http://h/p/f/0/1_0.jpg'' \<or>
        r = Head ''http://h/p/f/0/2_0.jpg'' then Reply 200 None
     else if r = Get ''http://h/p/f/0/0_0.jpg'' then Reply 200 (Some (Jpeg (Raster 0 512 512)))
     else if r = Get ''http://h/p/f/0/2_0.jpg'' then Reply 200 (Some (Jpeg (Raster 2 512 512)))
     else Reply 404 None)"

text \<open>
  A disk on which the face images \<open>b\<close>, \<open>l\<close>, \<open>r\<close>, \<open>u\<close>, \<open>d\<close> of panorama \<open>p\<close> of location \<open>a\<close>
  are already there, left by an earlier run.
\<close>

definition five_faces_on_disk :: world where
  "five_faces_on_disk =
     \<lparr>files = [(''panoramas/a/p/b.jpg'', Jpeg (Raster 1 512 512)),
               (''panoramas/a/p/l.jpg'', Jpeg (Raster 2 512 512)),
               (''panoramas/a/p/r.jpg'', Jpeg (Raster 3 512 512)),
               (''panoramas/a/p/u.jpg'', Jpeg (Raster 4 512 512)),
               (''panoramas/a/p/d.jpg'', Jpeg (Raster 5 512 512))],
      dirs = [''panoramas'', ''panoramas/a'', ''panoramas/a/p''],
      log = []\<rparr>"

definition two_panoramas :: location where
  "two_panoramas = \<lparr>name = ''a'', baseUrl = ''http://h/'', panoramas = [''p'', ''q''],
                     version = []\<rparr>"

section \<open>Properties\<close>

subsection \<open>The fetcher\<close>

lemma truncated_neq: "Truncated c \<noteq> c"
  by (induction c) auto

lemma fetch_tile_hit: "path_exists w p \<Longrightarrow> fetch_tile e w u p = (True, w)"
  by (simp add: fetch_tile_def)

lemma fetch_tile_log:
  "\<not> path_exists w p \<Longrightarrow> log (snd (fetch_tile e w u p)) = log w @ [Get u]"
  by (auto simp: fetch_tile_def issue_def makedirs_def write_file_def Let_def
           split: response.splits option.splits if_splits)

lemma fetch_tile_success_exists:
  "fst (fetch_tile e w u p) \<Longrightarrow> path_exists (snd (fetch_tile e w u p)) p"
  by (auto simp: fetch_tile_def issue_def makedirs_def write_file_def Let_def
                 path_exists_def is_file_def
           split: response.splits option.splits if_splits)

lemma fetch_tile_success_iff:
  "\<not> path_exists w p \<Longrightarrow>
     fst (fetch_tile e w u p) \<longleftrightarrow>
       (\<exists>data. respond e (length (log w)) (Get u) = Reply 200 (Some data) \<and>
               map_of (files (snd (fetch_tile e w u p))) p = Some data \<and>
               dirname p \<in> set (dirs (snd (fetch_tile e w u p))))"
  by (auto simp: fetch_tile_def issue_def makedirs_def write_file_def Let_def
                 path_exists_def is_file_def dir_chain_def truncated_neq
           split: response.splits option.splits if_splits)

text \<open>
  Claim C9, as stated, fails in its parenthesis: two calls for the same destination can
  send two requests. Here the server answers 404 both times: the first call fails and
  writes nothing, the second call sends a second GET, and the log holds two requests.
\<close>

theorem fetch_tile_twice_counterexample:
  "length (log (snd (fetch_tile no_tiles
       (snd (fetch_tile no_tiles empty_world ''http://h/p/f/0/0_0.jpg'' ''c/0_0_0.jpg''))
       ''http://h/p/f/0/0_0.jpg'' ''c/0_0_0.jpg''))) = 2"
  by code_simp

text \<open>
  Claim C9, amended. When \<open>out_path\<close> exists, \<open>fetch_tile\<close> returns success at once and
  issues no request. Otherwise it issues exactly one GET, and returns success exactly when
  the answer has status 200 and its body is now stored at \<open>out_path\<close>, whose parent
  directory exists; so any other status, a timeout or a transport error gives failure.
  It never raises. After a call that returned success, a further call for the same
  destination is a cache hit: it issues no request and changes nothing.
\<close>

theorem fetch_tile_contract:
  "(path_exists w p \<longrightarrow> fetch_tile e w u p = (True, w)) \<and>
   (\<not> path_exists w p \<longrightarrow>
      log (snd (fetch_tile e w u p)) = log w @ [Get u] \<and>
      (fst (fetch_tile e w u p) \<longleftrightarrow>
         (\<exists>data. respond e (length (log w)) (Get u) = Reply 200 (Some data) \<and>
                 map_of (files (snd (fetch_tile e w u p))) p = Some data \<and>
                 dirname p \<in> set (dirs (snd (fetch_tile e w u p)))))) \<and>
   (fst (fetch_tile e w u p) \<longrightarrow>
      fetch_tile e (snd (fetch_tile e w u p)) u' p = (True, snd (fetch_tile e w u p)))"
  using fetch_tile_hit fetch_tile_log fetch_tile_success_iff fetch_tile_success_exists
  by blast

text \<open>
  The contract at a server holding the tile: the first call fetches it with one GET, the
  second call is a cache hit.
\<close>

theorem fetch_tile_contract_witness:
  "fst (fetch_tile only_root empty_world ''http://h/p/f/0/0_0.jpg'' ''c/0_0_0.jpg'') \<and>
   log (snd (fetch_tile only_root empty_world ''http://h/p/f/0/0_0.jpg'' ''c/0_0_0.jpg''))
     = [Get ''http://h/p/f/0/0_0.jpg''] \<and>
   fetch_tile only_root
     (snd (fetch_tile only_root empty_world ''http://h/p/f/0/0_0.jpg'' ''c/0_0_0.jpg''))
     ''http://h/p/f/0/0_0.jpg'' ''c/0_0_0.jpg''
     = (True, snd (fetch_tile only_root empty_world ''http://h/p/f/0/0_0.jpg'' ''c/0_0_0.jpg''))"
proof -
  have a: "fst (fetch_tile only_root empty_world ''http://h/p/f/0/0_0.jpg'' ''c/0_0_0.jpg'')"
    by code_simp
  have b: "\<not> path_exists empty_world ''c/0_0_0.jpg''"
    by code_simp
  have c: "log empty_world = []"
    by (simp add: empty_world_def)
  from a b c
    fetch_tile_contract [of empty_world "''c/0_0_0.jpg''" only_root
      "''http://h/p/f/0/0_0.jpg''" "''http://h/p/f/0/0_0.jpg''"]
  show ?thesis by simp
qed

subsection \<open>Fallback\<close>

text \<open>
  Claim C3, as stated, names the crop box \<open>(512,512)-(1024,1024)\<close>. With tile \<open>(1,1,1)\<close>
  missing and \<open>(0,0,0)\<close> present, the code crops \<open>(256,256)-(512,512)\<close>: the box lies
  inside the 512 by 512 parent.
\<close>

theorem scenario_B_counterexample:
  "fst (get_tile_with_fallback only_root empty_world ''http://h/'' ''p'' ''f'' 1 1 1 [] ''c'')
     = Inr (Some (Resize (Crop (Raster 7 512 512) 256 256 512 512) 512 512)) \<and>
   fst (get_tile_with_fallback only_root empty_world ''http://h/'' ''p'' ''f'' 1 1 1 [] ''c'')
     \<noteq> Inr (Some (Resize (Crop (Raster 7 512 512) 512 512 1024 1024) 512 512))"
  by code_simp

text \<open>
  Claim C3, amended. When the fetch of tile \<open>(1,1,1)\<close> fails and tile \<open>(0,0,0)\<close> resolves to
  \<open>parent\<close>, \<open>get_tile_with_fallback\<close> works with scale 2 and returns the quadrant
  \<open>(256,256)-(512,512)\<close> of the parent, resized to 512 by 512.
\<close>

theorem scenario_B_fallback:
  assumes f: "fetch_tile e w (tile_url b p f 1 1 1 v) (path_join c (tile_file 1 1 1)) = (False, w1)"
    and g: "get_tile_with_fallback e w1 b p f 0 0 0 v c = (Inr (Some parent), w2)"
  shows "get_tile_with_fallback e w b p f 1 1 1 v c =
           (Inr (Some (Resize (Crop parent 256 256 512 512) 512 512)), w2)"
  by (simp add: get_tile_with_fallback.simps [of e w b p f 1 1 1]
        fallback_loop.simps [of e w1 b p f 1 1 1 v c 0] f g TILE_SIZE_def)

text \<open>Scenario B at the server that holds tile \<open>(0,0,0)\<close> only.\<close>

theorem scenario_B_fallback_witness:
  "fst (get_tile_with_fallback only_root empty_world ''http://h/'' ''p'' ''f'' 1 1 1 [] ''c'')
     = Inr (Some (Resize (Crop (Raster 7 512 512) 256 256 512 512) 512 512))"
proof -
  let ?w1 = "snd (fetch_tile only_root empty_world (tile_url ''http://h/'' ''p'' ''f'' 1 1 1 [])
                   (path_join ''c'' (tile_file 1 1 1)))"
  let ?w2 = "snd (get_tile_with_fallback only_root ?w1 ''http://h/'' ''p'' ''f'' 0 0 0 [] ''c'')"
  have "\<not> fst (fetch_tile only_root empty_world (tile_url ''http://h/'' ''p'' ''f'' 1 1 1 [])
                   (path_join ''c'' (tile_file 1 1 1)))"
    by code_simp
  then have f: "fetch_tile only_root empty_world (tile_url ''http://h/'' ''p'' ''f'' 1 1 1 [])
                   (path_join ''c'' (tile_file 1 1 1)) = (False, ?w1)"
    by (simp add: prod_eq_iff)
  have "fst (get_tile_with_fallback only_root ?w1 ''http://h/'' ''p'' ''f'' 0 0 0 [] ''c'')
          = Inr (Some (Raster 7 512 512))"
    by code_simp
  then have g: "get_tile_with_fallback only_root ?w1 ''http://h/'' ''p'' ''f'' 0 0 0 [] ''c''
          = (Inr (Some (Raster 7 512 512)), ?w2)"
    by (simp add: prod_eq_iff)
  from scenario_B_fallback [OF f g] show ?thesis by simp
qed





subsection \<open>The scan of the prober\<close>

lemma url_exists_eq: "url_exists e w u = (head_ok e (length (log w)) u, issue w (Head u))"
  by (simp add: url_exists_def head_ok_def split: response.splits)

lemma probe_loop_eq:
  "probe_loop e w mk is cur =
     (let h = leading_hits e (length (log w)) mk is
      in (if h = 0 then cur else is ! (h - 1),
          w\<lparr>log := log w @ map (\<lambda>i. Head (mk i)) (take (Suc h) is)\<rparr>))"
  by (induction "is" arbitrary: w cur) (simp_all add: url_exists_eq issue_def Let_def)

lemma leading_hits_le: "leading_hits e n mk is \<le> length is"
  by (induction "is" arbitrary: n) simp_all

lemma leading_hits_hit:
  "j < leading_hits e n mk is \<Longrightarrow> head_ok e (n + j) (mk (is ! j))"
proof (induction "is" arbitrary: n j)
  case Nil
  then show ?case by simp
next
  case (Cons i "is")
  show ?case
  proof (cases j)
    case 0
    with Cons.prems show ?thesis by (simp split: if_splits)
  next
    case (Suc k)
    with Cons.prems have "k < leading_hits e (Suc n) mk is" by (simp split: if_splits)
    from Cons.IH [OF this] Suc show ?thesis by simp
  qed
qed

lemma leading_hits_miss:
  "leading_hits e n mk is < length is \<Longrightarrow>
     \<not> head_ok e (n + leading_hits e n mk is) (mk (is ! leading_hits e n mk is))"
proof (induction "is" arbitrary: n)
  case Nil
  then show ?case by simp
next
  case (Cons i "is")
  show ?case
  proof (cases "head_ok e n (mk i)")
    case True
    with Cons.prems have "leading_hits e (Suc n) mk is < length is" by simp
    from Cons.IH [OF this] True show ?thesis by simp
  next
    case False
    then show ?thesis by simp
  qed
qed

subsection \<open>The loop over coarser levels\<close>

lemma fallback_loop_found:
  "fallback_loop e w b p f level x y v c fl0 = (Inr (Some t), w') \<Longrightarrow>
     \<exists>fl w2 parent. 0 \<le> fl \<and> fl \<le> fl0 \<and>
        get_tile_with_fallback e w2 b p f fl (x div 2 ^ nat (level - fl)) (y div 2 ^ nat (level - fl)) v c
          = (Inr (Some parent), w') \<and>
        t = Resize (Crop parent
                 ((x mod 2 ^ nat (level - fl)) * (TILE_SIZE div 2 ^ nat (level - fl)))
                 ((y mod 2 ^ nat (level - fl)) * (TILE_SIZE div 2 ^ nat (level - fl)))
                 ((x mod 2 ^ nat (level - fl)) * (TILE_SIZE div 2 ^ nat (level - fl)) + TILE_SIZE div 2 ^ nat (level - fl))
                 ((y mod 2 ^ nat (level - fl)) * (TILE_SIZE div 2 ^ nat (level - fl)) + TILE_SIZE div 2 ^ nat (level - fl)))
               TILE_SIZE TILE_SIZE"
proof (induction "nat (fl0 + 1)" arbitrary: fl0 w)
  case 0
  then have "fl0 < 0" by simp
  with 0 show ?case by (simp add: fallback_loop.simps [of e w b p f level x y v c fl0])
next
  case (Suc n)
  then have nonneg: "0 \<le> fl0" and n: "n = nat ((fl0 - 1) + 1)" by simp_all
  let ?s = "2 ^ nat (level - fl0) :: int"
  obtain r w1 where sub: "get_tile_with_fallback e w b p f fl0 (x div ?s) (y div ?s) v c = (r, w1)"
    by (cases "get_tile_with_fallback e w b p f fl0 (x div ?s) (y div ?s) v c")
  show ?case
  proof (cases r)
    case (Inl err)
    with Suc.prems nonneg sub show ?thesis
      by (simp add: fallback_loop.simps [of e w b p f level x y v c fl0] Let_def)
  next
    case (Inr topt)
    show ?thesis
    proof (cases topt)
      case None
      with Inr Suc.prems nonneg sub
      have "fallback_loop e w1 b p f level x y v c (fl0 - 1) = (Inr (Some t), w')"
        by (simp add: fallback_loop.simps [of e w b p f level x y v c fl0] Let_def)
      from Suc.hyps(1) [OF n this] obtain fl w2 parent where
        a: "0 \<le> fl" "fl \<le> fl0 - 1"
          "get_tile_with_fallback e w2 b p f fl (x div 2 ^ nat (level - fl))
             (y div 2 ^ nat (level - fl)) v c = (Inr (Some parent), w')"
          "t = Resize (Crop parent
                 ((x mod 2 ^ nat (level - fl)) * (TILE_SIZE div 2 ^ nat (level - fl)))
                 ((y mod 2 ^ nat (level - fl)) * (TILE_SIZE div 2 ^ nat (level - fl)))
                 ((x mod 2 ^ nat (level - fl)) * (TILE_SIZE div 2 ^ nat (level - fl)) + TILE_SIZE div 2 ^ nat (level - fl))
                 ((y mod 2 ^ nat (level - fl)) * (TILE_SIZE div 2 ^ nat (level - fl)) + TILE_SIZE div 2 ^ nat (level - fl)))
               TILE_SIZE TILE_SIZE"
        by blast
      from a(2) have "fl \<le> fl0" by simp
      with a(1,3,4) show ?thesis by blast
    next
      case (Some parent)
      with Inr Suc.prems nonneg sub have "w' = w1" and
        "t = Resize (Crop parent
                 ((x mod ?s) * (TILE_SIZE div ?s)) ((y mod ?s) * (TILE_SIZE div ?s))
                 ((x mod ?s) * (TILE_SIZE div ?s) + TILE_SIZE div ?s)
                 ((y mod ?s) * (TILE_SIZE div ?s) + TILE_SIZE div ?s)) TILE_SIZE TILE_SIZE"
        by (simp_all add: fallback_loop.simps [of e w b p f level x y v c fl0] Let_def)
      with Some Inr sub nonneg show ?thesis by blast
    qed
  qed
qed

subsection \<open>The budgeted resolver\<close>

lemma fuel_enough:
  "(\<forall>n. nat level < n \<longrightarrow>
      get_tile_fuel n e w b p f level x y v c = Some (get_tile_with_fallback e w b p f level x y v c))"
  "(\<forall>n. nat (fl + 1) \<le> n \<longrightarrow>
      fallback_fuel n e w b p f level x y v c fl = Some (fallback_loop e w b p f level x y v c fl))"
proof (induction e w b p f level x y v c and e w b p f level x y v c fl
       rule: get_tile_with_fallback_fallback_loop.induct)
  case (1 e w b p f level x y v c)
  show ?case
  proof (intro allI impI)
    fix n assume "nat level < n"
    then obtain m where m: "n = Suc m" and le: "nat (level - 1 + 1) \<le> m"
      by (cases n) auto
    show "get_tile_fuel n e w b p f level x y v c = Some (get_tile_with_fallback e w b p f level x y v c)"
      unfolding m
      apply (subst get_tile_fuel.simps)
      apply (subst get_tile_with_fallback.simps)
      using 1 le
      apply (auto simp: Let_def split: prod.splits bool.splits sum.splits)
      done
  qed
next
  case (2 e w b p f level x y v c fl)
  show ?case
  proof (intro allI impI)
    fix n assume n: "nat (fl + 1) \<le> n"
    show "fallback_fuel n e w b p f level x y v c fl = Some (fallback_loop e w b p f level x y v c fl)"
    proof (cases "fl < 0")
      case True
      then show ?thesis
        by (simp add: fallback_fuel.simps [of n e w b p f level x y v c fl]
              fallback_loop.simps [of e w b p f level x y v c fl])
    next
      case False
      then have a: "nat fl < n" and b: "nat (fl - 1 + 1) \<le> n" using n by auto
      show ?thesis
        apply (subst fallback_fuel.simps)
        apply (subst fallback_loop.simps)
        using 2 False a b
        apply (auto simp: Let_def split: prod.splits option.splits sum.splits)
        done
    qed
  qed
qed


subsection \<open>Grid probing\<close>

lemma upto_0_9: "[0..9::int] = [0, 1, 2, 3, 4, 5, 6, 7, 8, 9]"
  by code_simp

lemma nth_upto_0_9: "j < 10 \<Longrightarrow> [0..9::int] ! j = int j"
  by (simp add: nth_upto)

lemma probe_loop_default:
  "probe_loop e w mk [0..9] (- 1) =
     (int (leading_hits e (length (log w)) mk [0..9]) - 1,
      w\<lparr>log := log w @ map (\<lambda>i. Head (mk i))
                         (take (Suc (leading_hits e (length (log w)) mk [0..9])) [0..9])\<rparr>)"
proof -
  let ?h = "leading_hits e (length (log w)) mk [0..9]"
  have "?h \<le> length [0..9::int]" by (rule leading_hits_le)
  then have le: "?h \<le> 10" by simp
  have "?h \<noteq> 0 \<Longrightarrow> [0..9::int] ! (?h - 1) = int ?h - 1"
    using le by (simp add: nth_upto_0_9 of_nat_diff)
  then show ?thesis
    by (simp add: probe_loop_eq Let_def)
qed

text \<open>
  Claim C7. \<open>detect_max_grid\<close> with its default \<open>max_check = 10\<close> sends HEAD requests for
  the tiles \<open>(level, 0, 0)\<close>, \<open>(level, 1, 0)\<close>, ... one after the other, up to and including the
  first miss and ten at most, then the same for \<open>(level, 0, 0)\<close>, \<open>(level, 0, 1)\<close>, ...; with
  \<open>hx\<close> the number of hits before the first miss, \<open>max_x = hx - 1\<close>, the index of the last hit,
  or \<open>-1\<close> when the first probe misses, and \<open>max_y\<close> likewise. Files and directories are left
  alone. Probing is monotonic: when tile \<open>(level, k, 0)\<close> is absent, that is no HEAD request
  for it is ever answered 200, then \<open>max_x < k\<close>.
\<close>

theorem detect_max_grid_probe:
  assumes "detect_max_grid e w b p f v level 10 = ((max_x, max_y), w')"
  shows "\<exists>hx hy. hx \<le> 10 \<and> hy \<le> 10 \<and> max_x = int hx - 1 \<and> max_y = int hy - 1 \<and>
     (\<forall>j<hx. head_ok e (length (log w) + j) (tile_url b p f level (int j) 0 v)) \<and>
     (hx < 10 \<longrightarrow> \<not> head_ok e (length (log w) + hx) (tile_url b p f level (int hx) 0 v)) \<and>
     (\<forall>j<hy. head_ok e (length (log w) + min 10 (Suc hx) + j) (tile_url b p f level 0 (int j) v)) \<and>
     (hy < 10 \<longrightarrow>
        \<not> head_ok e (length (log w) + min 10 (Suc hx) + hy) (tile_url b p f level 0 (int hy) v)) \<and>
     log w' = log w @ map (\<lambda>x. Head (tile_url b p f level x 0 v)) (take (Suc hx) [0..9])
                    @ map (\<lambda>y. Head (tile_url b p f level 0 y v)) (take (Suc hy) [0..9]) \<and>
     files w' = files w \<and> dirs w' = dirs w \<and>
     (\<forall>k\<ge>0. (\<forall>n. \<not> head_ok e n (tile_url b p f level k 0 v)) \<longrightarrow> max_x < k) \<and>
     (\<forall>k\<ge>0. (\<forall>n. \<not> head_ok e n (tile_url b p f level 0 k v)) \<longrightarrow> max_y < k)"
proof -
  let ?ux = "\<lambda>x. tile_url b p f level x 0 v"
  let ?uy = "\<lambda>y. tile_url b p f level 0 y v"
  let ?n = "length (log w)"
  let ?hx = "leading_hits e ?n ?ux [0..9]"
  let ?n1 = "?n + min 10 (Suc ?hx)"
  let ?hy = "leading_hits e ?n1 ?uy [0..9]"
  have lx: "?hx \<le> 10" using leading_hits_le [of e ?n ?ux "[0..9]"] by simp
  have ly: "?hy \<le> 10" using leading_hits_le [of e ?n1 ?uy "[0..9]"] by simp
  have len1: "length (log w @ map (\<lambda>i. Head (?ux i)) (take (Suc ?hx) [0..9])) = ?n1"
    by (simp add: min.commute)
  from assms have mx: "max_x = int ?hx - 1" and my: "max_y = int ?hy - 1"
    and lg: "log w' = log w @ map (\<lambda>x. Head (?ux x)) (take (Suc ?hx) [0..9])
                    @ map (\<lambda>y. Head (?uy y)) (take (Suc ?hy) [0..9])"
    and fs: "files w' = files w" and ds: "dirs w' = dirs w"
    using len1 by (auto simp: detect_max_grid_def probe_loop_default min.commute)
  have hitx: "\<forall>j<?hx. head_ok e (?n + j) (?ux (int j))"
  proof (intro allI impI)
    fix j assume j: "j < ?hx"
    from leading_hits_hit [OF j] j lx show "head_ok e (?n + j) (?ux (int j))"
      by (simp add: nth_upto_0_9)
  qed
  have missx: "?hx < 10 \<longrightarrow> \<not> head_ok e (?n + ?hx) (?ux (int ?hx))"
  proof
    assume h: "?hx < 10"
    then have "?hx < length [0..9::int]" by simp
    from leading_hits_miss [OF this] h show "\<not> head_ok e (?n + ?hx) (?ux (int ?hx))"
      by (simp add: nth_upto_0_9)
  qed
  have hity: "\<forall>j<?hy. head_ok e (?n1 + j) (?uy (int j))"
  proof (intro allI impI)
    fix j assume j: "j < ?hy"
    from leading_hits_hit [OF j] j ly show "head_ok e (?n1 + j) (?uy (int j))"
      by (simp add: nth_upto_0_9)
  qed
  have missy: "?hy < 10 \<longrightarrow> \<not> head_ok e (?n1 + ?hy) (?uy (int ?hy))"
  proof
    assume h: "?hy < 10"
    then have "?hy < length [0..9::int]" by simp
    from leading_hits_miss [OF this] h show "\<not> head_ok e (?n1 + ?hy) (?uy (int ?hy))"
      by (simp add: nth_upto_0_9)
  qed
  have monox: "\<forall>k\<ge>0. (\<forall>n. \<not> head_ok e n (?ux k)) \<longrightarrow> max_x < k"
  proof (intro allI impI)
    fix k :: int assume k: "0 \<le> k" and absent: "\<forall>n. \<not> head_ok e n (?ux k)"
    show "max_x < k"
    proof (rule ccontr)
      assume "\<not> max_x < k"
      with mx k have "nat k < ?hx" by simp
      with hitx have "head_ok e (?n + nat k) (?ux (int (nat k)))" by blast
      with k absent show False by simp
    qed
  qed
  have monoy: "\<forall>k\<ge>0. (\<forall>n. \<not> head_ok e n (?uy k)) \<longrightarrow> max_y < k"
  proof (intro allI impI)
    fix k :: int assume k: "0 \<le> k" and absent: "\<forall>n. \<not> head_ok e n (?uy k)"
    show "max_y < k"
    proof (rule ccontr)
      assume "\<not> max_y < k"
      with my k have "nat k < ?hy" by simp
      with hity have "head_ok e (?n1 + nat k) (?uy (int (nat k)))" by blast
      with k absent show False by simp
    qed
  qed
  show ?thesis
    apply (rule exI [of _ ?hx])
    apply (rule exI [of _ ?hy])
    using lx ly mx my hitx missx hity missy lg fs ds monox monoy
    apply (intro conjI)
                apply assumption+
    done
qed

text \<open>Scenario A: tiles at \<open>x = 0, 1, 2\<close>, none at \<open>x = 3\<close>; the probe reports \<open>max_x = 2\<close>.\<close>

theorem detect_max_grid_probe_witness:
  "fst (detect_max_grid three_columns empty_world ''http://h/'' ''p'' ''f'' [] 0 10) = (2, 0) \<and>
   (\<forall>n. \<not> head_ok three_columns n ''http://h/p/f/0/3_0.jpg'') \<and>
   fst (fst (detect_max_grid three_columns empty_world ''http://h/'' ''p'' ''f'' [] 0 10)) < 3"
proof -
  let ?r = "detect_max_grid three_columns empty_world ''http://h/'' ''p'' ''f'' [] 0 10"
  have r: "fst ?r = (2, 0)" by code_simp
  have eq: "?r = ((fst (fst ?r), snd (fst ?r)), snd ?r)" by simp
  have u: "tile_url ''http://h/'' ''p'' ''f'' 0 3 0 [] = ''http://h/p/f/0/3_0.jpg''"
    by code_simp
  have absent: "\<forall>n. \<not> head_ok three_columns n ''http://h/p/f/0/3_0.jpg''"
    by (simp add: head_ok_def three_columns_def good_disk_def)
  from detect_max_grid_probe [OF eq] obtain hx hy where
    "\<forall>k\<ge>0. (\<forall>n. \<not> head_ok three_columns n (tile_url ''http://h/'' ''p'' ''f'' 0 k 0 []))
        \<longrightarrow> fst (fst ?r) < k"
    by blast
  then have "(\<forall>n. \<not> head_ok three_columns n (tile_url ''http://h/'' ''p'' ''f'' 0 3 0 []))
        \<longrightarrow> fst (fst ?r) < 3"
    by simp
  with absent u have "fst (fst ?r) < 3" by simp
  with r absent show ?thesis by simp
qed

subsection \<open>Geometry of the fallback\<close>

text \<open>
  Claim C2, as stated, fails in its last part: a tile satisfied at the requested level is
  the decoded file as it is. A server whose tile \<open>(0, 0, 0)\<close> is 256 by 256 yields a result
  of edge 256.
\<close>

theorem fallback_geometry_counterexample:
  "fst (get_tile_with_fallback small_root empty_world ''http://h/'' ''p'' ''f'' 0 0 0 [] ''c'')
     = Inr (Some (Raster 3 256 256)) \<and>
   psize (Raster 3 256 256) \<noteq> (TILE_SIZE, TILE_SIZE)"
  by code_simp

text \<open>
  Claim C2, amended. A tile that \<open>get_tile_with_fallback\<close> returns is either the file of
  the requested level as decoded, of whatever size the file has, or it comes from a
  coarser level \<open>fallback_level\<close> with \<open>0 \<le> fallback_level < level\<close>: then, with
  \<open>scale = 2 ^ (level - fallback_level)\<close>, the tile \<open>(x div scale, y div scale)\<close> of that level
  resolved to \<open>sub_tile\<close>, and the result is the region of edge \<open>TILE_SIZE div scale\<close> at offset
  \<open>((x mod scale) * (TILE_SIZE div scale), (y mod scale) * (TILE_SIZE div scale))\<close> of
  \<open>sub_tile\<close>, resized to \<open>TILE_SIZE\<close> by \<open>TILE_SIZE\<close>; its size is exactly 512 by 512.
\<close>

theorem fallback_geometry:
  assumes "get_tile_with_fallback e w b p f level x y v c = (Inr (Some t), w')"
  shows "(fetch_tile e w (tile_url b p f level x y v) (path_join c (tile_file level x y)) = (True, w')
            \<and> image_open w' (path_join c (tile_file level x y)) = Inr t) \<or>
         (\<exists>fallback_level w2 sub_tile.
            fst (fetch_tile e w (tile_url b p f level x y v) (path_join c (tile_file level x y))) = False \<and>
            0 \<le> fallback_level \<and> fallback_level < level \<and>
            (let scale = 2 ^ nat (level - fallback_level);
                 sub_size = TILE_SIZE div scale;
                 cx = (x mod scale) * sub_size;
                 cy = (y mod scale) * sub_size
             in get_tile_with_fallback e w2 b p f fallback_level (x div scale) (y div scale) v c
                  = (Inr (Some sub_tile), w') \<and>
                t = Resize (Crop sub_tile cx cy (cx + sub_size) (cy + sub_size)) TILE_SIZE TILE_SIZE) \<and>
            psize t = (512, 512))"
proof -
  let ?out = "path_join c (tile_file level x y)"
  let ?u = "tile_url b p f level x y v"
  obtain ok w1 where ft: "fetch_tile e w ?u ?out = (ok, w1)"
    by (cases "fetch_tile e w ?u ?out")
  show ?thesis
  proof (cases ok)
    case True
    with ft assms have "w' = w1 \<and> image_open w1 ?out = Inr t"
      by (auto simp: get_tile_with_fallback.simps [of e w b p f level x y v c]
               split: sum.splits)
    with ft True show ?thesis by simp
  next
    case False
    with ft assms have "fallback_loop e w1 b p f level x y v c (level - 1) = (Inr (Some t), w')"
      by (simp add: get_tile_with_fallback.simps [of e w b p f level x y v c])
    from fallback_loop_found [OF this] obtain fl w2 parent where
      a: "0 \<le> fl" "fl \<le> level - 1"
         "get_tile_with_fallback e w2 b p f fl (x div 2 ^ nat (level - fl))
             (y div 2 ^ nat (level - fl)) v c = (Inr (Some parent), w')"
         "t = Resize (Crop parent
                 ((x mod 2 ^ nat (level - fl)) * (TILE_SIZE div 2 ^ nat (level - fl)))
                 ((y mod 2 ^ nat (level - fl)) * (TILE_SIZE div 2 ^ nat (level - fl)))
                 ((x mod 2 ^ nat (level - fl)) * (TILE_SIZE div 2 ^ nat (level - fl)) + TILE_SIZE div 2 ^ nat (level - fl))
                 ((y mod 2 ^ nat (level - fl)) * (TILE_SIZE div 2 ^ nat (level - fl)) + TILE_SIZE div 2 ^ nat (level - fl)))
               TILE_SIZE TILE_SIZE"
      by blast
    from a(2) have lt: "fl < level" by simp
    from a(4) have sz: "psize t = (512, 512)" by (simp add: TILE_SIZE_def)
    have "\<exists>fallback_level w2 sub_tile.
            fst (fetch_tile e w ?u ?out) = False \<and>
            0 \<le> fallback_level \<and> fallback_level < level \<and>
            (let scale = 2 ^ nat (level - fallback_level);
                 sub_size = TILE_SIZE div scale;
                 cx = (x mod scale) * sub_size;
                 cy = (y mod scale) * sub_size
             in get_tile_with_fallback e w2 b p f fallback_level (x div scale) (y div scale) v c
                  = (Inr (Some sub_tile), w') \<and>
                t = Resize (Crop sub_tile cx cy (cx + sub_size) (cy + sub_size)) TILE_SIZE TILE_SIZE) \<and>
            psize t = (512, 512)"
      apply (rule exI [of _ fl])
      apply (rule exI [of _ w2])
      apply (rule exI [of _ parent])
      using ft False a(1) lt a(3) a(4) sz
      apply (simp add: Let_def)
      done
    then show ?thesis by blast
  qed
qed

text \<open>Tile \<open>(1, 1, 1)\<close> of the server that holds tile \<open>(0, 0, 0)\<close> only.\<close>

theorem fallback_geometry_witness:
  "(fetch_tile only_root empty_world (tile_url ''http://h/'' ''p'' ''f'' 1 1 1 [])
        (path_join ''c'' (tile_file 1 1 1))
      = (True, snd (get_tile_with_fallback only_root empty_world ''http://h/'' ''p'' ''f'' 1 1 1 [] ''c''))
      \<and> image_open (snd (get_tile_with_fallback only_root empty_world ''http://h/'' ''p'' ''f'' 1 1 1 [] ''c''))
          (path_join ''c'' (tile_file 1 1 1))
        = Inr (Resize (Crop (Raster 7 512 512) 256 256 512 512) 512 512)) \<or>
   (\<exists>fallback_level w2 sub_tile.
      fst (fetch_tile only_root empty_world (tile_url ''http://h/'' ''p'' ''f'' 1 1 1 [])
             (path_join ''c'' (tile_file 1 1 1))) = False \<and>
      0 \<le> fallback_level \<and> fallback_level < 1 \<and>
      (let scale = 2 ^ nat (1 - fallback_level);
           sub_size = TILE_SIZE div scale;
           cx = (1 mod scale) * sub_size;
           cy = (1 mod scale) * sub_size
       in get_tile_with_fallback only_root w2 ''http://h/'' ''p'' ''f'' fallback_level
            (1 div scale) (1 div scale) [] ''c''
            = (Inr (Some sub_tile),
               snd (get_tile_with_fallback only_root empty_world ''http://h/'' ''p'' ''f'' 1 1 1 [] ''c'')) \<and>
          Resize (Crop (Raster 7 512 512) 256 256 512 512) 512 512
            = Resize (Crop sub_tile cx cy (cx + sub_size) (cy + sub_size)) TILE_SIZE TILE_SIZE) \<and>
      psize (Resize (Crop (Raster 7 512 512) 256 256 512 512) 512 512) = (512, 512))"
proof -
  let ?r = "get_tile_with_fallback only_root empty_world ''http://h/'' ''p'' ''f'' 1 1 1 [] ''c''"
  let ?t = "Resize (Crop (Raster 7 512 512) 256 256 512 512) 512 512"
  have "fst ?r = Inr (Some ?t)" by code_simp
  then have r: "?r = (Inr (Some ?t), snd ?r)" by (simp add: prod_eq_iff)
  show ?thesis by (rule fallback_geometry [OF r])
qed

subsection \<open>Depth of the recursion\<close>

text \<open>
  Claim C10. \<open>get_tile_with_fallback\<close> is a total function: every recursive call is at a
  level \<open>fallback_level\<close> with \<open>0 \<le> fallback_level\<close> below the level of the caller, which is
  the termination argument accepted for its definition. Its depth is bounded by the level:
  a budget of more than \<open>level\<close> nested activations (the first call and \<open>level\<close> below it) is
  always enough for the budgeted function to return, and it returns the same result.
\<close>

theorem resolve_depth_bounded:
  "nat level < n \<Longrightarrow>
     get_tile_fuel n e w b p f level x y v c = Some (get_tile_with_fallback e w b p f level x y v c)"
  using fuel_enough(1) by blast

text \<open>
  At level 3 a budget of 4 activations is enough; with tiles missing down to level 0 a
  budget of 3 is not.
\<close>

theorem resolve_depth_bounded_witness:
  "get_tile_fuel 4 only_root empty_world ''http://h/'' ''p'' ''f'' 3 5 6 [] ''c''
     = Some (get_tile_with_fallback only_root empty_world ''http://h/'' ''p'' ''f'' 3 5 6 [] ''c'') \<and>
   get_tile_fuel 3 only_root empty_world ''http://h/'' ''p'' ''f'' 3 5 6 [] ''c'' = None"
proof -
  have "get_tile_fuel 3 only_root empty_world ''http://h/'' ''p'' ''f'' 3 5 6 [] ''c'' = None"
    by code_simp
  with resolve_depth_bounded [of 3 4 only_root empty_world "''http://h/''" "''p''" "''f''" 5 6 "[]" "''c''"]
  show ?thesis by simp
qed

subsection \<open>The composite of a face\<close>

lemma merge_row_resolve:
  "merge_row e w b p f v c level x ys pano = (Inr pano', w') \<Longrightarrow>
     \<exists>ts. resolve_row e w b p f v c level x ys = (Inr ts, w') \<and>
          pastes pano' = pastes pano @ map (\<lambda>((x, y), t). ((y * TILE_SIZE, x * TILE_SIZE), t)) ts \<and>
          psize pano' = psize pano"
proof (induction ys arbitrary: w pano)
  case Nil
  then show ?case by simp
next
  case (Cons y ys)
  obtain r w1 where g: "get_tile_with_fallback e w b p f level x y v c = (r, w1)"
    by (cases "get_tile_with_fallback e w b p f level x y v c")
  show ?case
  proof (cases r)
    case (Inl err)
    with Cons.prems g show ?thesis by simp
  next
    case (Inr topt)
    show ?thesis
    proof (cases topt)
      case None
      with Inr g Cons.prems have "merge_row e w1 b p f v c level x ys pano = (Inr pano', w')"
        by simp
      from Cons.IH [OF this] None Inr g show ?thesis by auto
    next
      case (Some t)
      with Inr g Cons.prems have
        "merge_row e w1 b p f v c level x ys (Paste pano t (y * TILE_SIZE) (x * TILE_SIZE))
           = (Inr pano', w')"
        by simp
      from Cons.IH [OF this] Some Inr g show ?thesis by auto
    qed
  qed
qed

lemma merge_grid_resolve:
  "merge_grid e w b p f v c level xs ys pano = (Inr pano', w') \<Longrightarrow>
     \<exists>ts. resolve_grid e w b p f v c level xs ys = (Inr ts, w') \<and>
          pastes pano' = pastes pano @ map (\<lambda>((x, y), t). ((y * TILE_SIZE, x * TILE_SIZE), t)) ts \<and>
          psize pano' = psize pano"
proof (induction xs arbitrary: w pano)
  case Nil
  then show ?case by simp
next
  case (Cons x xs)
  obtain r w1 where m: "merge_row e w b p f v c level x ys pano = (r, w1)"
    by (cases "merge_row e w b p f v c level x ys pano")
  show ?case
  proof (cases r)
    case (Inl err)
    with Cons.prems m show ?thesis by simp
  next
    case (Inr pano1)
    with m Cons.prems have "merge_grid e w1 b p f v c level xs ys pano1 = (Inr pano', w')"
      by simp
    from Cons.IH [OF this] obtain ts' where
      a: "resolve_grid e w1 b p f v c level xs ys = (Inr ts', w')"
         "pastes pano' = pastes pano1 @ map (\<lambda>((x, y), t). ((y * TILE_SIZE, x * TILE_SIZE), t)) ts'"
         "psize pano' = psize pano1"
      by blast
    from merge_row_resolve m Inr obtain ts where
      b: "resolve_row e w b p f v c level x ys = (Inr ts, w1)"
         "pastes pano1 = pastes pano @ map (\<lambda>((x, y), t). ((y * TILE_SIZE, x * TILE_SIZE), t)) ts"
         "psize pano1 = psize pano"
      by blast
    from a b show ?thesis by simp
  qed
qed

lemma resolve_row_coords:
  "resolve_row e w b p f v c level x ys = (Inr ts, w') \<Longrightarrow>
     ((x', y'), t) \<in> set ts \<Longrightarrow> x' = x \<and> y' \<in> set ys"
proof (induction ys arbitrary: w ts)
  case Nil
  then show ?case by simp
next
  case (Cons y ys)
  then show ?case
    by (fastforce split: prod.splits sum.splits option.splits)
qed

lemma resolve_grid_coords:
  "resolve_grid e w b p f v c level xs ys = (Inr ts, w') \<Longrightarrow>
     ((x', y'), t) \<in> set ts \<Longrightarrow> x' \<in> set xs \<and> y' \<in> set ys"
proof (induction xs arbitrary: w ts)
  case Nil
  then show ?case by simp
next
  case (Cons x xs)
  then show ?case
    by (fastforce split: prod.splits sum.splits dest: resolve_row_coords)
qed


lemma set_upto_0: "set [0..m] = {i. 0 \<le> i \<and> i \<le> m}"
  by auto

lemma makedirs_files: "makedirs e w d = Some w' \<Longrightarrow> files w' = files w \<and> log w' = log w"
  by (auto simp: makedirs_def split: if_splits)

lemma write_file_log: "write_file e w p c = (ok, w') \<Longrightarrow> log w' = log w"
  by (auto simp: write_file_def split: if_splits)

lemma write_file_lookup: "write_file e w p c = (True, w') \<Longrightarrow> map_of (files w') p = Some c"
  by (auto simp: write_file_def split: if_splits)

lemma write_file_succeeds:
  "p \<notin> set (dirs w) \<Longrightarrow> disk_ok e p \<Longrightarrow> write_ok e p \<Longrightarrow> fst (write_file e w p c)"
  by (simp add: write_file_def)

lemma pastes_foldl:
  "pastes (foldl (\<lambda>c ((x, y), t). Paste c t (y * TILE_SIZE) (x * TILE_SIZE)) pano ts) = pastes pano @ map (\<lambda>((x, y), t). ((y * TILE_SIZE, x * TILE_SIZE), t)) ts"
  by (induction ts arbitrary: pano) auto

lemma psize_foldl:
  "psize (foldl (\<lambda>c ((x, y), t). Paste c t (y * TILE_SIZE) (x * TILE_SIZE)) pano ts) = psize pano"
  by (induction ts arbitrary: pano) auto

lemma merge_row_eq:
  "merge_row e w b p f v c level x ys pano =
     (case resolve_row e w b p f v c level x ys of
        (Inl err, w') \<Rightarrow> (Inl err, w')
      | (Inr ts, w') \<Rightarrow> (Inr (foldl (\<lambda>c ((x, y), t). Paste c t (y * TILE_SIZE) (x * TILE_SIZE)) pano ts), w'))"
proof (induction ys arbitrary: w pano)
  case Nil
  show ?case by simp
next
  case (Cons y ys)
  obtain g w1 where g: "get_tile_with_fallback e w b p f level x y v c = (g, w1)"
    by (cases "get_tile_with_fallback e w b p f level x y v c")
  obtain r w2 where r: "resolve_row e w1 b p f v c level x ys = (r, w2)"
    by (cases "resolve_row e w1 b p f v c level x ys")
  show ?case
  proof (cases g)
    case (Inl err)
    with g show ?thesis by simp
  next
    case (Inr topt)
    show ?thesis
    proof (cases topt)
      case None
      with Inr g r Cons.IH [of w1 pano] show ?thesis
        by (cases r) simp_all
    next
      case (Some t)
      with Inr g r Cons.IH [of w1 "Paste pano t (y * TILE_SIZE) (x * TILE_SIZE)"] show ?thesis
        by (cases r) simp_all
    qed
  qed
qed

lemma merge_grid_eq:
  "merge_grid e w b p f v c level xs ys pano =
     (case resolve_grid e w b p f v c level xs ys of
        (Inl err, w') \<Rightarrow> (Inl err, w')
      | (Inr ts, w') \<Rightarrow> (Inr (foldl (\<lambda>c ((x, y), t). Paste c t (y * TILE_SIZE) (x * TILE_SIZE)) pano ts), w'))"
proof (induction xs arbitrary: w pano)
  case Nil
  show ?case by simp
next
  case (Cons x xs)
  obtain g w1 where g: "resolve_row e w b p f v c level x ys = (g, w1)"
    by (cases "resolve_row e w b p f v c level x ys")
  show ?case
  proof (cases g)
    case (Inl err)
    with g show ?thesis by (simp add: merge_row_eq)
  next
    case (Inr ts)
    obtain r w2 where r: "resolve_grid e w1 b p f v c level xs ys = (r, w2)"
      by (cases "resolve_grid e w1 b p f v c level xs ys")
    from Inr g r Cons.IH [of w1 "foldl (\<lambda>c ((x, y), t). Paste c t (y * TILE_SIZE) (x * TILE_SIZE)) pano ts"]
    show ?thesis
      by (cases r) (simp_all add: merge_row_eq)
  qed
qed

text \<open>
  Claim C8, as stated, fails: a non-negative probe does not always yield a composite. The
  only tile of face \<open>f\<close> answers HEAD, so the probe returns \<open>(0, 0)\<close>, but what is fetched
  for it is not an image: \<open>download_and_merge_face\<close> raises and no face file is written.
\<close>

theorem face_composite_counterexample:
  "(case makedirs junk_face empty_world ''out'' of
      None \<Rightarrow> False
    | Some w0 \<Rightarrow> fst (detect_max_grid junk_face w0 ''http://h/'' ''p'' ''f'' [] 0 10) = (0, 0)) \<and>
   fst (download_and_merge_face junk_face empty_world ''http://h/'' ''p'' ''f'' [] ''out'' 0)
     = Inl (UnidentifiedImageError ''temp_tiles/p/f/0_0_0.jpg'') \<and>
   \<not> path_exists
       (snd (download_and_merge_face junk_face empty_world ''http://h/'' ''p'' ''f'' [] ''out'' 0))
       ''out/f.jpg''"
  by code_simp

text \<open>
  Claim C8, amended. When the probe of a face returns \<open>max_x \<ge> 0\<close> and \<open>max_y \<ge> 0\<close>,
  \<open>download_and_merge_face\<close> never reports the face absent, and its outcome is fixed by the
  tiles of the grid \<open>0..max_x\<close> by \<open>0..max_y\<close>, resolved in the order of the loops. When
  resolving one of them raises (a tile file that cannot be opened as an image), that
  exception leaves the function and nothing is saved. Otherwise the composite has size
  exactly \<open>(max_x + 1) * TILE_SIZE\<close> by \<open>(max_y + 1) * TILE_SIZE\<close>, and the tiles that resolved
  have been pasted on it in that order, tile \<open>(x, y)\<close> at the offset
  \<open>(y * TILE_SIZE, x * TILE_SIZE)\<close>, which is not \<open>(x * TILE_SIZE, y * TILE_SIZE)\<close> unless
  \<open>x = y\<close>; saving it either fails, which raises, or succeeds, and then the path of the
  face file is returned and the file holds this composite.
\<close>

theorem face_composite:
  assumes mk: "makedirs e w save_dir = Some w0"
    and probe: "detect_max_grid e w0 b p f v level 10 = ((max_x, max_y), w1)"
    and nonneg: "0 \<le> max_x" "0 \<le> max_y"
  shows "(\<forall>err w2.
            resolve_grid e w1 b p f v (path_join3 TEMP_DIR p f) level [0..max_x] [0..max_y]
              = (Inl err, w2) \<longrightarrow>
            download_and_merge_face e w b p f v save_dir level = (Inl err, w2)) \<and>
         (\<forall>ts w2.
            resolve_grid e w1 b p f v (path_join3 TEMP_DIR p f) level [0..max_x] [0..max_y]
              = (Inr ts, w2) \<longrightarrow>
            (\<exists>pano.
               psize pano = ((max_x + 1) * TILE_SIZE, (max_y + 1) * TILE_SIZE) \<and>
               pastes pano = map (\<lambda>((x, y), t). ((y * TILE_SIZE, x * TILE_SIZE), t)) ts \<and>
               (\<forall>((x, y), t) \<in> set ts.
                  0 \<le> x \<and> x \<le> max_x \<and> 0 \<le> y \<and> y \<le> max_y \<and>
                  (x \<noteq> y \<longrightarrow> (y * TILE_SIZE, x * TILE_SIZE) \<noteq> (x * TILE_SIZE, y * TILE_SIZE))) \<and>
               (\<forall>w3. write_file e w2 (path_join save_dir (f @ ''.jpg'')) (Jpeg pano) = (False, w3) \<longrightarrow>
                  download_and_merge_face e w b p f v save_dir level
                    = (Inl (OSError (path_join save_dir (f @ ''.jpg''))), w3)) \<and>
               (\<forall>w3. write_file e w2 (path_join save_dir (f @ ''.jpg'')) (Jpeg pano) = (True, w3) \<longrightarrow>
                  download_and_merge_face e w b p f v save_dir level
                    = (Inr (Some (path_join save_dir (f @ ''.jpg''))), w3) \<and>
                  map_of (files w3) (path_join save_dir (f @ ''.jpg'')) = Some (Jpeg pano))))"
proof -
  let ?c = "path_join3 TEMP_DIR p f"
  let ?new = "New_image ((max_x + 1) * TILE_SIZE) ((max_y + 1) * TILE_SIZE)"
  let ?out = "path_join save_dir (f @ ''.jpg'')"
  let ?rg = "resolve_grid e w1 b p f v ?c level [0..max_x] [0..max_y]"
  let ?dmf = "download_and_merge_face e w b p f v save_dir level"
  have dmf: "?dmf =
      (case merge_grid e w1 b p f v ?c level [0..max_x] [0..max_y] ?new of
         (Inl err, w2) \<Rightarrow> (Inl err, w2)
       | (Inr pano', w2) \<Rightarrow>
           (case write_file e w2 ?out (Jpeg pano') of
              (False, w3) \<Rightarrow> (Inl (OSError ?out), w3)
            | (True, w3) \<Rightarrow> (Inr (Some ?out), w3)))"
    using mk probe nonneg
    by (simp add: download_and_merge_face_def Let_def split: prod.splits sum.splits)
  have c1: "\<forall>err w2. ?rg = (Inl err, w2) \<longrightarrow> ?dmf = (Inl err, w2)"
  proof (intro allI impI)
    fix err w2 assume "?rg = (Inl err, w2)"
    then have "merge_grid e w1 b p f v ?c level [0..max_x] [0..max_y] ?new = (Inl err, w2)"
      by (simp add: merge_grid_eq)
    then show "?dmf = (Inl err, w2)" by (simp add: dmf)
  qed
  have c2: "\<forall>ts w2. ?rg = (Inr ts, w2) \<longrightarrow>
            (\<exists>pano.
               psize pano = ((max_x + 1) * TILE_SIZE, (max_y + 1) * TILE_SIZE) \<and>
               pastes pano = map (\<lambda>((x, y), t). ((y * TILE_SIZE, x * TILE_SIZE), t)) ts \<and>
               (\<forall>((x, y), t) \<in> set ts.
                  0 \<le> x \<and> x \<le> max_x \<and> 0 \<le> y \<and> y \<le> max_y \<and>
                  (x \<noteq> y \<longrightarrow> (y * TILE_SIZE, x * TILE_SIZE) \<noteq> (x * TILE_SIZE, y * TILE_SIZE))) \<and>
               (\<forall>w3. write_file e w2 ?out (Jpeg pano) = (False, w3) \<longrightarrow>
                  ?dmf = (Inl (OSError ?out), w3)) \<and>
               (\<forall>w3. write_file e w2 ?out (Jpeg pano) = (True, w3) \<longrightarrow>
                  ?dmf = (Inr (Some ?out), w3) \<and>
                  map_of (files w3) ?out = Some (Jpeg pano)))"
  proof (intro allI impI)
    fix ts w2 assume rg: "?rg = (Inr ts, w2)"
    let ?pano = "foldl (\<lambda>c ((x, y), t). Paste c t (y * TILE_SIZE) (x * TILE_SIZE)) ?new ts"
    from rg have mg: "merge_grid e w1 b p f v ?c level [0..max_x] [0..max_y] ?new = (Inr ?pano, w2)"
      by (simp add: merge_grid_eq)
    have a1: "psize ?pano = ((max_x + 1) * TILE_SIZE, (max_y + 1) * TILE_SIZE)"
      by (simp add: psize_foldl)
    have a2: "pastes ?pano = map (\<lambda>((x, y), t). ((y * TILE_SIZE, x * TILE_SIZE), t)) ts"
      by (simp add: pastes_foldl)
    have a3: "\<forall>((x, y), t) \<in> set ts.
               0 \<le> x \<and> x \<le> max_x \<and> 0 \<le> y \<and> y \<le> max_y \<and>
               (x \<noteq> y \<longrightarrow> (y * TILE_SIZE, x * TILE_SIZE) \<noteq> (x * TILE_SIZE, y * TILE_SIZE))"
    proof (clarify, intro conjI)
      fix x y t assume "((x, y), t) \<in> set ts"
      from resolve_grid_coords [OF rg this]
      show "0 \<le> x" "x \<le> max_x" "0 \<le> y" "y \<le> max_y" by simp_all
      show "x \<noteq> y \<longrightarrow> (y * TILE_SIZE, x * TILE_SIZE) \<noteq> (x * TILE_SIZE, y * TILE_SIZE)"
        by (simp add: TILE_SIZE_def)
    qed
    have a4: "\<forall>w3. write_file e w2 ?out (Jpeg ?pano) = (False, w3) \<longrightarrow>
                  ?dmf = (Inl (OSError ?out), w3)"
      by (simp add: dmf mg)
    have a5: "\<forall>w3. write_file e w2 ?out (Jpeg ?pano) = (True, w3) \<longrightarrow>
                  ?dmf = (Inr (Some ?out), w3) \<and> map_of (files w3) ?out = Some (Jpeg ?pano)"
    proof (intro allI impI)
      fix w3 assume wf: "write_file e w2 ?out (Jpeg ?pano) = (True, w3)"
      then have "?dmf = (Inr (Some ?out), w3)" by (simp add: dmf mg)
      with write_file_lookup [OF wf]
      show "?dmf = (Inr (Some ?out), w3) \<and> map_of (files w3) ?out = Some (Jpeg ?pano)"
        by (rule conjI [rotated])
    qed
    from a1 a2 a3 a4 a5 show "\<exists>pano.
               psize pano = ((max_x + 1) * TILE_SIZE, (max_y + 1) * TILE_SIZE) \<and>
               pastes pano = map (\<lambda>((x, y), t). ((y * TILE_SIZE, x * TILE_SIZE), t)) ts \<and>
               (\<forall>((x, y), t) \<in> set ts.
                  0 \<le> x \<and> x \<le> max_x \<and> 0 \<le> y \<and> y \<le> max_y \<and>
                  (x \<noteq> y \<longrightarrow> (y * TILE_SIZE, x * TILE_SIZE) \<noteq> (x * TILE_SIZE, y * TILE_SIZE))) \<and>
               (\<forall>w3. write_file e w2 ?out (Jpeg pano) = (False, w3) \<longrightarrow>
                  ?dmf = (Inl (OSError ?out), w3)) \<and>
               (\<forall>w3. write_file e w2 ?out (Jpeg pano) = (True, w3) \<longrightarrow>
                  ?dmf = (Inr (Some ?out), w3) \<and>
                  map_of (files w3) ?out = Some (Jpeg pano))"
      by (intro exI [of _ ?pano] conjI)
  qed
  from c1 c2 show ?thesis by (rule conjI)
qed

text \<open>
  A face of three columns whose middle tile cannot be fetched: the tiles \<open>(0, 0)\<close> and
  \<open>(2, 0)\<close> resolve, the composite is 1536 by 512, tile \<open>(0, 0)\<close> is pasted at \<open>(0, 0)\<close> and
  tile \<open>(2, 0)\<close> at \<open>(0, 1024)\<close>, and the face file holds it.
\<close>

theorem face_composite_witness:
  "fst (download_and_merge_face three_columns empty_world ''http://h/'' ''p'' ''f'' [] ''out'' 0)
     = Inr (Some (path_join ''out'' (''f'' @ ''.jpg''))) \<and>
   (\<exists>pano. psize pano = ((2 + 1) * TILE_SIZE, (0 + 1) * TILE_SIZE) \<and>
      pastes pano = map (\<lambda>((x, y), t). ((y * TILE_SIZE, x * TILE_SIZE), t))
                      [((0, 0), Raster 0 512 512), ((2, 0), Raster 2 512 512)] \<and>
      map_of (files (snd (download_and_merge_face three_columns empty_world ''http://h/'' ''p'' ''f''
                         [] ''out'' 0))) (path_join ''out'' (''f'' @ ''.jpg'')) = Some (Jpeg pano))"
proof -
  let ?r = "download_and_merge_face three_columns empty_world ''http://h/'' ''p'' ''f'' [] ''out'' 0"
  let ?w0 = "the (makedirs three_columns empty_world ''out'')"
  let ?d = "detect_max_grid three_columns ?w0 ''http://h/'' ''p'' ''f'' [] 0 10"
  let ?g = "resolve_grid three_columns (snd ?d) ''http://h/'' ''p'' ''f'' []
              (path_join3 TEMP_DIR ''p'' ''f'') 0 [0..2] [0..0]"
  let ?ts = "[((0, 0), Raster 0 512 512), ((2, 0), Raster 2 512 512)] :: ((int \<times> int) \<times> picture) list"
  let ?out = "path_join ''out'' (''f'' @ ''.jpg'')"
  have "makedirs three_columns empty_world ''out'' \<noteq> None" by code_simp
  then have mk: "makedirs three_columns empty_world ''out'' = Some ?w0" by simp
  have "fst ?d = (2, 0)" by code_simp
  then have d: "?d = ((2, 0), snd ?d)" by (simp add: prod_eq_iff)
  have n1: "(0::int) \<le> 2" and n2: "(0::int) \<le> 0" by simp_all
  have "fst ?g = Inr ?ts" by code_simp
  then have g: "?g = (Inr ?ts, snd ?g)" by (simp add: prod_eq_iff)
  have nd: "?out \<notin> set (dirs (snd ?g))" by code_simp
  have dk: "disk_ok three_columns ?out" "write_ok three_columns ?out"
    by (simp_all add: three_columns_def good_disk_def)
  note fc = face_composite [OF mk d n1 n2, THEN conjunct2, THEN spec, THEN spec, THEN mp, OF g]
  from fc obtain pano where
    c1: "psize pano = ((2 + 1) * TILE_SIZE, (0 + 1) * TILE_SIZE)" and
    c2: "pastes pano = map (\<lambda>((x, y), t). ((y * TILE_SIZE, x * TILE_SIZE), t)) ?ts" and
    c3: "\<forall>w3. write_file three_columns (snd ?g) ?out (Jpeg pano) = (True, w3) \<longrightarrow>
            ?r = (Inr (Some ?out), w3) \<and> map_of (files w3) ?out = Some (Jpeg pano)"
    by (elim exE conjE)
  let ?wf = "write_file three_columns (snd ?g) ?out (Jpeg pano)"
  from write_file_succeeds [OF nd dk] have "fst ?wf" .
  then have wf: "?wf = (True, snd ?wf)" by (simp add: prod_eq_iff)
  from c3 [THEN spec, THEN mp, OF wf] have
    r: "?r = (Inr (Some ?out), snd ?wf)" and fl: "map_of (files (snd ?wf)) ?out = Some (Jpeg pano)"
    by (rule conjunct1, rule conjunct2)
  from r have r1: "fst ?r = Inr (Some ?out)" and r2: "snd ?r = snd ?wf" by simp_all
  from fl r2 have "map_of (files (snd ?r)) ?out = Some (Jpeg pano)" by simp
  with c1 c2 have "\<exists>pano. psize pano = ((2 + 1) * TILE_SIZE, (0 + 1) * TILE_SIZE) \<and>
      pastes pano = map (\<lambda>((x, y), t). ((y * TILE_SIZE, x * TILE_SIZE), t)) ?ts \<and>
      map_of (files (snd ?r)) ?out = Some (Jpeg pano)"
    by (intro exI [of _ pano] conjI)
  with r1 show ?thesis by (rule conjI)
qed

subsection \<open>Level 0 only\<close>

lemma level0_run_refl: "level0_run b p v w w"
  by (simp add: level0_run_def)

lemma level0_run_same_log: "log w' = log w \<Longrightarrow> level0_run b p v w w'"
  by (simp add: level0_run_def)

lemma level0_run_trans:
  "level0_run b p v w w1 \<Longrightarrow> level0_run b p v w1 w2 \<Longrightarrow> level0_run b p v w w2"
  by (auto simp: level0_run_def)

lemma level0_request_Get: "level0_request b p v (Get (tile_url b p f 0 x y v))"
  unfolding level0_request_def by blast

lemma level0_request_Head: "level0_request b p v (Head (tile_url b p f 0 x y v))"
  unfolding level0_request_def by blast

lemma fetch_tile_level0:
  "fetch_tile e w (tile_url b p f 0 x y v) out = (ok, w') \<Longrightarrow> level0_run b p v w w'"
proof (cases "path_exists w out")
  case True
  assume "fetch_tile e w (tile_url b p f 0 x y v) out = (ok, w')"
  with True fetch_tile_hit [of w out e] have "w' = w" by simp
  then show ?thesis by (simp add: level0_run_refl)
next
  case False
  assume a: "fetch_tile e w (tile_url b p f 0 x y v) out = (ok, w')"
  from fetch_tile_log [OF False, of e "tile_url b p f 0 x y v"] a
  have "log w' = log w @ [Get (tile_url b p f 0 x y v)]" by simp
  then show ?thesis
    by (simp add: level0_run_def level0_request_Get)
qed

lemma get_tile_level0:
  "get_tile_with_fallback e w b p f 0 x y v c =
     (case fetch_tile e w (tile_url b p f 0 x y v) (path_join c (tile_file 0 x y)) of
        (True, w1) \<Rightarrow>
          (case image_open w1 (path_join c (tile_file 0 x y)) of
             Inl err \<Rightarrow> (Inl err, w1)
           | Inr pic \<Rightarrow> (Inr (Some pic), w1))
      | (False, w1) \<Rightarrow> (Inr None, w1))"
  by (simp add: get_tile_with_fallback.simps [of e w b p f 0 x y v c]
        fallback_loop.simps [of e _ b p f 0 x y v c "- 1"] Let_def
      split: prod.splits bool.splits)

lemma get_tile_level0_run:
  assumes "get_tile_with_fallback e w b p f 0 x y v c = (r, w')"
  shows "level0_run b p v w w'"
proof -
  obtain ok w1 where ft: "fetch_tile e w (tile_url b p f 0 x y v) (path_join c (tile_file 0 x y)) = (ok, w1)"
    by (cases "fetch_tile e w (tile_url b p f 0 x y v) (path_join c (tile_file 0 x y))")
  from assms ft have "w' = w1"
    by (cases ok) (auto simp: get_tile_level0 split: sum.splits)
  with fetch_tile_level0 [OF ft] show ?thesis by simp
qed

lemma merge_row_level0_run:
  "merge_row e w b p f v c 0 x ys pano = (r, w') \<Longrightarrow> level0_run b p v w w'"
proof (induction ys arbitrary: w pano)
  case Nil
  then show ?case by (simp add: level0_run_refl)
next
  case (Cons y ys)
  obtain g w1 where g: "get_tile_with_fallback e w b p f 0 x y v c = (g, w1)"
    by (cases "get_tile_with_fallback e w b p f 0 x y v c")
  note a = get_tile_level0_run [OF g]
  show ?case
  proof (cases g)
    case (Inl err)
    with g Cons.prems have "w' = w1" by simp
    with a show ?thesis by simp
  next
    case (Inr topt)
    show ?thesis
    proof (cases topt)
      case None
      with Inr g Cons.prems have "merge_row e w1 b p f v c 0 x ys pano = (r, w')" by simp
      from level0_run_trans [OF a Cons.IH [OF this]] show ?thesis .
    next
      case (Some t)
      with Inr g Cons.prems have
        "merge_row e w1 b p f v c 0 x ys (Paste pano t (y * TILE_SIZE) (x * TILE_SIZE)) = (r, w')"
        by simp
      from level0_run_trans [OF a Cons.IH [OF this]] show ?thesis .
    qed
  qed
qed

lemma merge_grid_level0_run:
  "merge_grid e w b p f v c 0 xs ys pano = (r, w') \<Longrightarrow> level0_run b p v w w'"
proof (induction xs arbitrary: w pano)
  case Nil
  then show ?case by (simp add: level0_run_refl)
next
  case (Cons x xs)
  obtain g w1 where g: "merge_row e w b p f v c 0 x ys pano = (g, w1)"
    by (cases "merge_row e w b p f v c 0 x ys pano")
  note a = merge_row_level0_run [OF g]
  show ?case
  proof (cases g)
    case (Inl err)
    with g Cons.prems have "w' = w1" by simp
    with a show ?thesis by simp
  next
    case (Inr pano1)
    with g Cons.prems have "merge_grid e w1 b p f v c 0 xs ys pano1 = (r, w')" by simp
    from level0_run_trans [OF a Cons.IH [OF this]] show ?thesis .
  qed
qed

lemma detect_max_grid_level0_run:
  assumes "detect_max_grid e w b p f v 0 mc = (r, w')"
  shows "level0_run b p v w w'"
proof -
  let ?ux = "\<lambda>x. tile_url b p f 0 x 0 v" and ?uy = "\<lambda>y. tile_url b p f 0 0 y v"
  obtain mx w1 where p1: "probe_loop e w ?ux [0..mc - 1] (- 1) = (mx, w1)"
    by (cases "probe_loop e w ?ux [0..mc - 1] (- 1)")
  obtain my w2 where p2: "probe_loop e w1 ?uy [0..mc - 1] (- 1) = (my, w2)"
    by (cases "probe_loop e w1 ?uy [0..mc - 1] (- 1)")
  from p1 have a: "level0_run b p v w w1"
    by (auto simp: probe_loop_eq Let_def level0_run_def list_all_iff level0_request_Head)
  from p2 have b: "level0_run b p v w1 w2"
    by (auto simp: probe_loop_eq Let_def level0_run_def list_all_iff level0_request_Head)
  from assms p1 p2 have "w' = w2" by (simp add: detect_max_grid_def)
  with level0_run_trans [OF a b] show ?thesis by simp
qed

lemma download_and_merge_face_level0_run:
  assumes "download_and_merge_face e w b p f v save_dir 0 = (r, w')"
  shows "level0_run b p v w w'"
proof (cases "makedirs e w save_dir")
  case None
  with assms have "w' = w" by (simp add: download_and_merge_face_def)
  then show ?thesis by (simp add: level0_run_refl)
next
  case (Some w0)
  from makedirs_files [OF Some] have a: "level0_run b p v w w0"
    by (simp add: level0_run_same_log)
  obtain mx my w1 where d: "detect_max_grid e w0 b p f v 0 10 = ((mx, my), w1)"
    by (cases "detect_max_grid e w0 b p f v 0 10") auto
  note ab = level0_run_trans [OF a detect_max_grid_level0_run [OF d]]
  show ?thesis
  proof (cases "mx < 0 \<or> my < 0")
    case True
    with assms Some d have "w' = w1" by (auto simp: download_and_merge_face_def)
    with ab show ?thesis by simp
  next
    case False
    let ?c = "path_join3 TEMP_DIR p f"
    let ?new = "New_image ((mx + 1) * TILE_SIZE) ((my + 1) * TILE_SIZE)"
    obtain g w2 where mg: "merge_grid e w1 b p f v ?c 0 [0..mx] [0..my] ?new = (g, w2)"
      by (cases "merge_grid e w1 b p f v ?c 0 [0..mx] [0..my] ?new")
    note abc = level0_run_trans [OF ab merge_grid_level0_run [OF mg]]
    show ?thesis
    proof (cases g)
      case (Inl err)
      with assms Some d False mg have "w' = w2"
        by (simp add: download_and_merge_face_def Let_def)
      with abc show ?thesis by simp
    next
      case (Inr pano')
      obtain ok w3 where
        wf: "write_file e w2 (path_join save_dir (f @ ''.jpg'')) (Jpeg pano') = (ok, w3)"
        by (cases "write_file e w2 (path_join save_dir (f @ ''.jpg'')) (Jpeg pano')")
      with Inr assms Some d False mg have "w' = w3"
        by (cases ok) (simp_all add: download_and_merge_face_def Let_def)
      moreover from write_file_log [OF wf] have "level0_run b p v w2 w3"
        by (simp add: level0_run_same_log)
      ultimately show ?thesis using level0_run_trans [OF abc] by simp
    qed
  qed
qed

lemma faces_loop_level0_run:
  "faces_loop e w b p v pano_dir fs face_size = (r, w') \<Longrightarrow> level0_run b p v w w'"
proof (induction fs arbitrary: w face_size)
  case Nil
  then show ?case by (simp add: level0_run_refl)
next
  case (Cons f fs)
  obtain g w1 where g: "download_and_merge_face e w b p f v pano_dir 0 = (g, w1)"
    by (cases "download_and_merge_face e w b p f v pano_dir 0")
  note a = download_and_merge_face_level0_run [OF g]
  show ?case
  proof (cases g)
    case (Inl err)
    with g Cons.prems have "w' = w1" by simp
    with a show ?thesis by simp
  next
    case (Inr face_path)
    have "w' = w1 \<or> (\<exists>fsz. faces_loop e w1 b p v pano_dir fs fsz = (r, w'))"
      using Inr g Cons.prems
      by (auto split: option.splits if_splits sum.splits)
    then show ?thesis
    proof
      assume "w' = w1"
      with a show ?thesis by simp
    next
      assume "\<exists>fsz. faces_loop e w1 b p v pano_dir fs fsz = (r, w')"
      then obtain fsz where "faces_loop e w1 b p v pano_dir fs fsz = (r, w')" by blast
      from level0_run_trans [OF a Cons.IH [OF this]] show ?thesis .
    qed
  qed
qed

lemma merge_to_equirect_log: "merge_to_equirect e w d out fsz = (r, w') \<Longrightarrow> log w' = log w"
  by (auto simp: merge_to_equirect_def Let_def
           split: sum.splits option.splits prod.splits if_splits bool.splits
           dest!: write_file_log)

lemma rmtree_log: "log (rmtree e w root) = log w"
  by (simp add: rmtree_def Let_def)

lemma process_pano_level0_run:
  assumes "process_pano e w loc pid = (r, w')"
  shows "level0_run (baseUrl loc) pid (build_version_suffix (version loc)) w w'"
proof -
  let ?b = "baseUrl loc" and ?v = "build_version_suffix (version loc)"
  let ?d = "path_join3 OUT_DIR (name loc) pid"
  let ?q = "path_join3 OUT_DIR (name loc) (pid @ ''.jpg'')"
  obtain g w1 where fl: "faces_loop e w ?b pid ?v ?d FACES None = (g, w1)"
    by (cases "faces_loop e w ?b pid ?v ?d FACES None")
  note a = faces_loop_level0_run [OF fl]
  have "log w' = log w1"
  proof (cases g)
    case (Inl err)
    with assms fl show ?thesis by (simp add: process_pano_def)
  next
    case (Inr face_size)
    show ?thesis
    proof (cases face_size)
      case None
      with Inr assms fl show ?thesis by (simp add: process_pano_def)
    next
      case (Some fsz)
      show ?thesis
      proof (cases "fsz = 0")
        case True
        with Some Inr assms fl show ?thesis by (simp add: process_pano_def)
      next
        case False
        obtain m w2 where m: "merge_to_equirect e w1 ?d ?q fsz = (m, w2)"
          by (cases "merge_to_equirect e w1 ?d ?q fsz")
        from merge_to_equirect_log [OF m] have l2: "log w2 = log w1" .
        from False Some Inr assms fl m have "w' = w2 \<or> w' = rmtree e (rmtree e w2 ?d) TEMP_DIR"
          by (cases m) (simp_all add: process_pano_def Let_def)
        with l2 show ?thesis by (auto simp: rmtree_log)
      qed
    qed
  qed
  then have "level0_run ?b pid ?v w1 w'" by (rule level0_run_same_log)
  from level0_run_trans [OF a this] show ?thesis .
qed


subsection \<open>No fallback in the pipeline\<close>

text \<open>
  Claim C6. At level 0 the loop over coarser levels is empty: \<open>get_tile_with_fallback\<close>
  returns the directly fetched and decoded tile, or nothing when the fetch fails, after that
  one fetch and no other request. In the row loop a level-0 tile whose fetch fails is
  skipped with the canvas unchanged. \<open>process_pano\<close> assembles every face at level 0: each
  request it issues, HEAD or GET, is for a level-0 tile of its panorama.
\<close>

theorem pipeline_level0_only:
  "get_tile_with_fallback e w b p f 0 x y v c =
     (case fetch_tile e w (tile_url b p f 0 x y v) (path_join c (tile_file 0 x y)) of
        (True, w1) \<Rightarrow>
          (case image_open w1 (path_join c (tile_file 0 x y)) of
             Inl err \<Rightarrow> (Inl err, w1)
           | Inr pic \<Rightarrow> (Inr (Some pic), w1))
      | (False, w1) \<Rightarrow> (Inr None, w1)) \<and>
   (fetch_tile e w (tile_url b p f 0 x y v) (path_join c (tile_file 0 x y)) = (False, w1) \<longrightarrow>
      merge_row e w b p f v c 0 x (y # ys) pano = merge_row e w1 b p f v c 0 x ys pano) \<and>
   level0_run (baseUrl loc) pano_id (build_version_suffix (version loc)) w
     (snd (process_pano e w loc pano_id))"
proof (intro conjI impI)
  show "get_tile_with_fallback e w b p f 0 x y v c =
     (case fetch_tile e w (tile_url b p f 0 x y v) (path_join c (tile_file 0 x y)) of
        (True, w1) \<Rightarrow>
          (case image_open w1 (path_join c (tile_file 0 x y)) of
             Inl err \<Rightarrow> (Inl err, w1)
           | Inr pic \<Rightarrow> (Inr (Some pic), w1))
      | (False, w1) \<Rightarrow> (Inr None, w1))"
    by (rule get_tile_level0)
next
  assume "fetch_tile e w (tile_url b p f 0 x y v) (path_join c (tile_file 0 x y)) = (False, w1)"
  then show "merge_row e w b p f v c 0 x (y # ys) pano = merge_row e w1 b p f v c 0 x ys pano"
    by (simp add: get_tile_level0)
next
  show "level0_run (baseUrl loc) pano_id (build_version_suffix (version loc)) w
     (snd (process_pano e w loc pano_id))"
    by (rule process_pano_level0_run [of e w loc pano_id "fst (process_pano e w loc pano_id)"]) simp
qed

text \<open>
  Tile \<open>(1, 0)\<close> of the three-column face cannot be fetched: one GET at level 0, and the
  canvas stays blank there.
\<close>

theorem pipeline_level0_only_witness:
  "merge_row three_columns empty_world ''http://h/'' ''p'' ''f'' [] ''c'' 0 1 [0] (New_image 1536 512)
     = merge_row three_columns
         (snd (fetch_tile three_columns empty_world (tile_url ''http://h/'' ''p'' ''f'' 0 1 0 [])
                 (path_join ''c'' (tile_file 0 1 0))))
         ''http://h/'' ''p'' ''f'' [] ''c'' 0 1 [] (New_image 1536 512) \<and>
   fst (merge_row three_columns empty_world ''http://h/'' ''p'' ''f'' [] ''c'' 0 1 [0]
          (New_image 1536 512)) = Inr (New_image 1536 512) \<and>
   log (snd (merge_row three_columns empty_world ''http://h/'' ''p'' ''f'' [] ''c'' 0 1 [0]
          (New_image 1536 512))) = [Get ''http://h/p/f/0/1_0.jpg'']"
proof -
  let ?f = "fetch_tile three_columns empty_world (tile_url ''http://h/'' ''p'' ''f'' 0 1 0 [])
                 (path_join ''c'' (tile_file 0 1 0))"
  have "\<not> fst ?f" by code_simp
  then have f: "?f = (False, snd ?f)" by (simp add: prod_eq_iff)
  have a: "fst (merge_row three_columns empty_world ''http://h/'' ''p'' ''f'' [] ''c'' 0 1 [0]
          (New_image 1536 512)) = Inr (New_image 1536 512)" by code_simp
  have b: "log (snd (merge_row three_columns empty_world ''http://h/'' ''p'' ''f'' [] ''c'' 0 1 [0]
          (New_image 1536 512))) = [Get ''http://h/p/f/0/1_0.jpg'']" by code_simp
  from pipeline_level0_only [of three_columns empty_world "''http://h/''" "''p''" "''f''" 1 0 "[]" "''c''"
      "snd ?f" "[]" "New_image 1536 512"] f
  have "merge_row three_columns empty_world ''http://h/'' ''p'' ''f'' [] ''c'' 0 1 [0] (New_image 1536 512)
     = merge_row three_columns (snd ?f) ''http://h/'' ''p'' ''f'' [] ''c'' 0 1 [] (New_image 1536 512)"
    by blast
  with a b show ?thesis by blast
qed

subsection \<open>A missing face at projection time\<close>

lemma load_faces_missing:
  "f \<in> set fs \<Longrightarrow> \<not> path_exists w (path_join pano_dir (f @ ''.jpg'')) \<Longrightarrow>
     \<exists>err. load_faces w pano_dir fs = Inl err"
proof (induction fs)
  case Nil
  then show ?case by simp
next
  case (Cons g fs)
  show ?case
  proof (cases "f = g")
    case True
    with Cons.prems show ?thesis by (simp add: Let_def)
  next
    case False
    with Cons.prems Cons.IH obtain err where "load_faces w pano_dir fs = Inl err" by auto
    then show ?thesis by (simp add: Let_def split: sum.splits)
  qed
qed

lemma load_faces_error:
  "load_faces w pano_dir fs = Inl err \<Longrightarrow>
     (\<exists>f \<in> set fs. \<not> path_exists w (path_join pano_dir (f @ ''.jpg'')) \<and>
                    err = FileNotFoundError (path_join pano_dir (f @ ''.jpg''))) \<or>
     (\<exists>f \<in> set fs. path_exists w (path_join pano_dir (f @ ''.jpg'')) \<and>
                    image_open w (path_join pano_dir (f @ ''.jpg'')) = Inl err)"
proof (induction fs)
  case Nil
  then show ?case by simp
next
  case (Cons g fs)
  show ?case
  proof (cases "path_exists w (path_join pano_dir (g @ ''.jpg''))")
    case False
    with Cons.prems show ?thesis by (simp add: Let_def)
  next
    case True
    show ?thesis
    proof (cases "image_open w (path_join pano_dir (g @ ''.jpg''))")
      case (Inl e2)
      with True Cons.prems show ?thesis by (simp add: Let_def)
    next
      case (Inr im)
      with True Cons.prems have "load_faces w pano_dir fs = Inl err"
        by (simp add: Let_def split: sum.splits)
      from Cons.IH [OF this] show ?thesis by auto
    qed
  qed
qed

lemma merge_to_equirect_missing:
  assumes "f \<in> set FACES" and "\<not> path_exists w (path_join pano_dir (f @ ''.jpg''))"
  shows "\<exists>err. merge_to_equirect e w pano_dir out fsz = (Inl err, w) \<and>
           ((\<exists>g \<in> set FACES. err = FileNotFoundError (path_join pano_dir (g @ ''.jpg''))) \<or>
            (\<exists>g \<in> set FACES. path_exists w (path_join pano_dir (g @ ''.jpg'')) \<and>
                    image_open w (path_join pano_dir (g @ ''.jpg'')) = Inl err))"
proof -
  from load_faces_missing [OF assms] obtain err where l: "load_faces w pano_dir FACES = Inl err"
    by blast
  then have "merge_to_equirect e w pano_dir out fsz = (Inl err, w)"
    by (simp add: merge_to_equirect_def)
  with load_faces_error [OF l] show ?thesis by blast
qed

lemma pano_loop_abort:
  "process_pano e w loc pid = (Inl err, w') \<Longrightarrow> pano_loop e w loc (pid # rest) = (Inl err, w')"
  by simp

lemma main_abort:
  "pano_loop e w loc (panoramas loc) = (Inl err, w') \<Longrightarrow> main e w (loc # locs) = (Inl err, w')"
  by simp

text \<open>
  Claim C1, as stated, fails: nothing in \<open>process_pano\<close> or \<open>main\<close> catches the error of
  \<open>merge_to_equirect\<close>. With the panoramas \<open>p\<close> and \<open>q\<close>, and \<open>p\<close> lacking face \<open>b\<close>, the run
  ends with \<open>FileNotFoundError\<close> after the 15 requests for \<open>p\<close>; \<open>q\<close> is never started (its
  directory is not created and its first tile is never probed).
\<close>

theorem missing_face_counterexample:
  "fst (main one_face empty_world [two_panoramas]) = Inl (FileNotFoundError ''panoramas/a/p/b.jpg'') \<and>
   \<not> path_exists (snd (main one_face empty_world [two_panoramas])) ''panoramas/a/q'' \<and>
   list_all (\<lambda>r. r \<noteq> Head ''http://h/q/f/0/0_0.jpg'') (log (snd (main one_face empty_world [two_panoramas]))) \<and>
   length (log (snd (main one_face empty_world [two_panoramas]))) = 15"
  by code_simp

lemma image_open_exists: "image_open w p = Inr im \<Longrightarrow> path_exists w p"
  by (auto simp: image_open_def path_exists_def is_file_def
           split: option.splits content.splits if_splits)

lemma load_faces_after_opened:
  assumes "\<forall>h \<in> set pre. \<exists>im. image_open w (path_join d (h @ ''.jpg'')) = Inr im"
    and "load_faces w d rest = Inl err"
  shows "load_faces w d (pre @ rest) = Inl err"
  using assms
proof (induction pre)
  case Nil
  then show ?case by simp
next
  case (Cons h pre)
  from Cons.prems(1) obtain im where im: "image_open w (path_join d (h @ ''.jpg'')) = Inr im"
    by auto
  from Cons have "load_faces w d (pre @ rest) = Inl err" by simp
  with im image_open_exists [OF im] show ?case by (simp add: Let_def)
qed

lemma load_faces_first_missing:
  "\<not> path_exists w (path_join d (g @ ''.jpg'')) \<Longrightarrow>
     load_faces w d (g # post) = Inl (FileNotFoundError (path_join d (g @ ''.jpg'')))"
  by (simp add: Let_def)

lemma load_faces_first_unreadable:
  "path_exists w (path_join d (g @ ''.jpg'')) \<Longrightarrow>
     image_open w (path_join d (g @ ''.jpg'')) = Inl e2 \<Longrightarrow>
     load_faces w d (g # post) = Inl e2"
  by (simp add: Let_def)

text \<open>
  Claim C1, amended. When the faces loop has fixed a face size and a face file is missing
  at projection time, \<open>merge_to_equirect\<close> raises, and the error leaves \<open>process_pano\<close> and
  \<open>main\<close> uncaught: the run ends there, in the state the failure left, whatever panoramas
  \<open>rest\<close> and locations \<open>locs\<close> remain. The error is that of the first face, in the order of
  \<open>FACES\<close>, that is missing or cannot be opened: \<open>FileNotFoundError\<close> for its file when it
  is missing, the error of opening it when it is there.
\<close>

theorem missing_face_aborts_run:
  assumes faces: "faces_loop e w (baseUrl loc) pano_id (build_version_suffix (version loc))
                    (path_join3 OUT_DIR (name loc) pano_id) FACES None = (Inr (Some face_size), w1)"
    and size: "face_size \<noteq> 0"
    and face: "face \<in> set FACES"
    and missing: "\<not> path_exists w1 (path_join (path_join3 OUT_DIR (name loc) pano_id) (face @ ''.jpg''))"
  shows "\<exists>err. process_pano e w loc pano_id = (Inl err, w1) \<and>
           pano_loop e w loc (pano_id # rest) = (Inl err, w1) \<and>
           main e w (loc\<lparr>panoramas := pano_id # rest\<rparr> # locs) = (Inl err, w1) \<and>
           (\<forall>pre g post.
              FACES = pre @ g # post \<and>
              (\<forall>h \<in> set pre. \<exists>im. image_open w1 (path_join (path_join3 OUT_DIR (name loc) pano_id) (h @ ''.jpg'')) = Inr im) \<longrightarrow>
              (\<not> path_exists w1 (path_join (path_join3 OUT_DIR (name loc) pano_id) (g @ ''.jpg'')) \<longrightarrow> err = FileNotFoundError (path_join (path_join3 OUT_DIR (name loc) pano_id) (g @ ''.jpg''))) \<and>
              (\<forall>e2. path_exists w1 (path_join (path_join3 OUT_DIR (name loc) pano_id) (g @ ''.jpg'')) \<and> image_open w1 (path_join (path_join3 OUT_DIR (name loc) pano_id) (g @ ''.jpg'')) = Inl e2 \<longrightarrow> err = e2))"
proof -
  let ?d = "path_join3 OUT_DIR (name loc) pano_id"
  let ?q = "path_join3 OUT_DIR (name loc) (pano_id @ ''.jpg'')"
  from load_faces_missing [OF face missing] obtain err where
    lf: "load_faces w1 ?d FACES = Inl err" by blast
  then have m: "merge_to_equirect e w1 ?d ?q face_size = (Inl err, w1)"
    by (simp add: merge_to_equirect_def)
  from faces size m have p: "process_pano e w loc pano_id = (Inl err, w1)"
    by (simp add: process_pano_def Let_def)
  then have l: "pano_loop e w loc (pano_id # rest) = (Inl err, w1)" by simp
  have "process_pano e w (loc\<lparr>panoramas := pano_id # rest\<rparr>) pano_id = process_pano e w loc pano_id"
    by (simp add: process_pano_def Let_def split: prod.splits sum.splits option.splits)
  with p have "pano_loop e w (loc\<lparr>panoramas := pano_id # rest\<rparr>) (pano_id # rest) = (Inl err, w1)"
    by simp
  then have r: "main e w (loc\<lparr>panoramas := pano_id # rest\<rparr> # locs) = (Inl err, w1)" by simp
  have k: "\<forall>pre g post.
              FACES = pre @ g # post \<and>
              (\<forall>h \<in> set pre. \<exists>im. image_open w1 (path_join ?d (h @ ''.jpg'')) = Inr im) \<longrightarrow>
              (\<not> path_exists w1 (path_join ?d (g @ ''.jpg'')) \<longrightarrow>
                 err = FileNotFoundError (path_join ?d (g @ ''.jpg''))) \<and>
              (\<forall>e2. path_exists w1 (path_join ?d (g @ ''.jpg'')) \<and>
                    image_open w1 (path_join ?d (g @ ''.jpg'')) = Inl e2 \<longrightarrow> err = e2)"
  proof (intro allI impI conjI)
    fix pre g post
    assume a: "FACES = pre @ g # post \<and>
              (\<forall>h \<in> set pre. \<exists>im. image_open w1 (path_join ?d (h @ ''.jpg'')) = Inr im)"
    assume "\<not> path_exists w1 (path_join ?d (g @ ''.jpg''))"
    from load_faces_first_missing [OF this]
    have "load_faces w1 ?d (g # post) = Inl (FileNotFoundError (path_join ?d (g @ ''.jpg'')))" .
    from load_faces_after_opened [OF conjunct2 [OF a] this] a lf
    show "err = FileNotFoundError (path_join ?d (g @ ''.jpg''))" by simp
  next
    fix pre g post e2
    assume a: "FACES = pre @ g # post \<and>
              (\<forall>h \<in> set pre. \<exists>im. image_open w1 (path_join ?d (h @ ''.jpg'')) = Inr im)"
    assume b: "path_exists w1 (path_join ?d (g @ ''.jpg'')) \<and>
               image_open w1 (path_join ?d (g @ ''.jpg'')) = Inl e2"
    from load_faces_first_unreadable [OF conjunct1 [OF b] conjunct2 [OF b]]
    have "load_faces w1 ?d (g # post) = Inl e2" .
    from load_faces_after_opened [OF conjunct2 [OF a] this] a lf
    show "err = e2" by simp
  qed
  from p l r k show ?thesis by (intro exI [of _ err] conjI)
qed

text \<open>
  Panorama \<open>p\<close> with face \<open>f\<close> only: face \<open>f\<close> opens, face \<open>b\<close> is the first one missing at
  projection time, and the run ends with \<open>FileNotFoundError\<close> for its file.
\<close>

theorem missing_face_aborts_run_witness:
  "main one_face empty_world [two_panoramas]
     = (Inl (FileNotFoundError
               (path_join (path_join3 OUT_DIR (name two_panoramas) ''p'') (''b'' @ ''.jpg''))),
        snd (faces_loop one_face empty_world ''http://h/'' ''p'' [] ''panoramas/a/p'' FACES None))"
proof -
  let ?fl = "faces_loop one_face empty_world ''http://h/'' ''p'' [] ''panoramas/a/p'' FACES None"
  let ?d = "path_join3 OUT_DIR (name two_panoramas) ''p''"
  have "fst ?fl = Inr (Some 512)" by code_simp
  then have fl: "?fl = (Inr (Some 512), snd ?fl)" by (simp add: prod_eq_iff)
  have d: "?d = ''panoramas/a/p''" by code_simp
  have b: "baseUrl two_panoramas = ''http://h/''" "build_version_suffix (version two_panoramas) = []"
    by (simp_all add: two_panoramas_def build_version_suffix_def)
  have fl': "faces_loop one_face empty_world (baseUrl two_panoramas) ''p''
               (build_version_suffix (version two_panoramas)) ?d FACES None
             = (Inr (Some 512), snd ?fl)"
    using fl by (simp only: b d)
  have face: "''b'' \<in> set FACES" by (simp add: FACES_def)
  have "\<not> path_exists (snd ?fl) (path_join ''panoramas/a/p'' (''b'' @ ''.jpg''))" by code_simp
  then have missing: "\<not> path_exists (snd ?fl) (path_join ?d (''b'' @ ''.jpg''))"
    by (simp add: d)
  have "image_open (snd ?fl) (path_join ''panoramas/a/p'' (''f'' @ ''.jpg''))
          = Inr (Paste (New_image 512 512) (Raster 7 512 512) 0 0)"
    by code_simp
  then have opened: "\<forall>h \<in> set [''f'']. \<exists>im. image_open (snd ?fl) (path_join ?d (h @ ''.jpg'')) = Inr im"
    by (simp add: d)
  have split: "FACES = [''f''] @ ''b'' # [''l'', ''r'', ''u'', ''d'']" by (simp add: FACES_def)
  have l: "two_panoramas\<lparr>panoramas := ''p'' # [''q'']\<rparr> = two_panoramas"
    by (simp add: two_panoramas_def)
  have nz: "(512::int) \<noteq> 0" by simp
  from missing_face_aborts_run [OF fl' nz face missing, of "[''q'']" "[]"] obtain err where
    r: "main one_face empty_world (two_panoramas\<lparr>panoramas := ''p'' # [''q'']\<rparr> # [])
          = (Inl err, snd ?fl)" and
    k: "\<forall>pre g post.
              FACES = pre @ g # post \<and>
              (\<forall>h \<in> set pre. \<exists>im. image_open (snd ?fl) (path_join ?d (h @ ''.jpg'')) = Inr im) \<longrightarrow>
              (\<not> path_exists (snd ?fl) (path_join ?d (g @ ''.jpg'')) \<longrightarrow>
                 err = FileNotFoundError (path_join ?d (g @ ''.jpg''))) \<and>
              (\<forall>e2. path_exists (snd ?fl) (path_join ?d (g @ ''.jpg'')) \<and>
                    image_open (snd ?fl) (path_join ?d (g @ ''.jpg'')) = Inl e2 \<longrightarrow> err = e2)"
    by (elim exE conjE)
  from k [THEN spec, THEN spec, THEN spec, THEN mp, OF conjI [OF split opened],
          THEN conjunct1, THEN mp, OF missing]
  have "err = FileNotFoundError (path_join ?d (''b'' @ ''.jpg''))" .
  with r l show ?thesis by simp
qed

subsection \<open>Cleanup\<close>

lemma prefix_ensure_slash: "prefix d (ensure_slash d)"
  by (simp add: ensure_slash_def)

lemma path_under_trans:
  assumes a: "path_under root d" and b: "path_under d p"
  shows "path_under root p"
proof (cases "p = d")
  case True
  with a show ?thesis by simp
next
  case False
  with b have pd: "prefix (ensure_slash d) p" by (simp add: path_under_def)
  show ?thesis
  proof (cases "d = root")
    case True
    with pd show ?thesis by (simp add: path_under_def)
  next
    case False
    with a have "prefix (ensure_slash root) d" by (simp add: path_under_def)
    also have "prefix d (ensure_slash d)" by (rule prefix_ensure_slash)
    also note pd
    finally show ?thesis by (simp add: path_under_def)
  qed
qed

lemma rmtree_absent:
  "\<not> path_exists w q \<Longrightarrow> \<not> path_exists (rmtree e w root) q"
  by (auto simp: path_exists_def is_file_def rmtree_def Let_def map_of_eq_None_iff image_iff)

lemma rmtree_purged:
  assumes all: "\<forall>q. path_under root q \<longrightarrow> removable e q" and q: "path_under root q"
  shows "\<not> path_exists (rmtree e w root) q"
proof -
  have below: "\<And>p. path_under q p \<Longrightarrow> path_under root p \<and> removable e p"
    using path_under_trans [OF q] all by blast
  have "map_of (files (rmtree e w root)) q = None"
    using q all by (auto simp: rmtree_def Let_def map_of_eq_None_iff)
  moreover have "q \<notin> set (dirs (rmtree e w root))"
    using q all below by (auto simp: rmtree_def Let_def list_ex_iff)
  ultimately show ?thesis by (simp add: path_exists_def is_file_def)
qed

lemma rmtree_frame:
  "\<not> path_under root q \<Longrightarrow> map_of (files (rmtree e w root)) q = map_of (files w) q"
proof -
  assume nu: "\<not> path_under root q"
  have "map_of (filter (\<lambda>(p, _). \<not> path_under root p \<or> \<not> removable e p) fs) q = map_of fs q" for fs
    using nu by (induction fs) auto
  then show ?thesis by (simp add: rmtree_def Let_def)
qed

text \<open>
  Claim C4, as stated, fails: the two \<open>rmtree\<close> calls stand inside \<open>if face_size\<close>, after the
  projection. When no face assembles, the panorama's directory stays; when the projection
  raises, the face image and the cached tiles stay.
\<close>

theorem cleanup_counterexample:
  "fst (process_pano no_tiles empty_world two_panoramas ''p'') = Inr () \<and>
   path_exists (snd (process_pano no_tiles empty_world two_panoramas ''p'')) ''panoramas/a/p'' \<and>
   fst (process_pano one_face empty_world two_panoramas ''p'')
     = Inl (FileNotFoundError ''panoramas/a/p/b.jpg'') \<and>
   path_exists (snd (process_pano one_face empty_world two_panoramas ''p'')) ''panoramas/a/p/f.jpg'' \<and>
   path_exists (snd (process_pano one_face empty_world two_panoramas ''p'')) ''temp_tiles/p/f/0_0_0.jpg''"
  by code_simp

text \<open>
  Claim C4, amended. \<open>process_pano\<close> purges the panorama's face directory and the temp-tile
  root exactly when a face size was fixed (a face assembled) and the projection returned:
  then it returns normally whatever the deletions do, and when every deletion succeeds
  nothing is left at or below either directory, while files elsewhere are kept. When no
  face assembled, when the face size is 0, or when an exception leaves the faces loop or
  the projection, the world is returned as that step left it, with nothing purged.
\<close>

theorem cleanup_after_projection:
  assumes faces: "faces_loop e w (baseUrl loc) pano_id (build_version_suffix (version loc))
                    (path_join3 OUT_DIR (name loc) pano_id) FACES None = (r, w1)"
  shows "(r = Inr None \<or> r = Inr (Some 0) \<longrightarrow> process_pano e w loc pano_id = (Inr (), w1)) \<and>
         (\<forall>err. r = Inl err \<longrightarrow> process_pano e w loc pano_id = (Inl err, w1)) \<and>
         (\<forall>face_size err w2.
            r = Inr (Some face_size) \<and> face_size \<noteq> 0 \<and>
            merge_to_equirect e w1 (path_join3 OUT_DIR (name loc) pano_id)
              (path_join3 OUT_DIR (name loc) (pano_id @ ''.jpg'')) face_size = (Inl err, w2) \<longrightarrow>
            process_pano e w loc pano_id = (Inl err, w2)) \<and>
         (\<forall>face_size u w2.
            r = Inr (Some face_size) \<and> face_size \<noteq> 0 \<and>
            merge_to_equirect e w1 (path_join3 OUT_DIR (name loc) pano_id)
              (path_join3 OUT_DIR (name loc) (pano_id @ ''.jpg'')) face_size = (Inr u, w2) \<longrightarrow>
            process_pano e w loc pano_id
              = (Inr (), rmtree e (rmtree e w2 (path_join3 OUT_DIR (name loc) pano_id)) TEMP_DIR) \<and>
            ((\<forall>q. removable e q) \<longrightarrow>
               (\<forall>q. path_under (path_join3 OUT_DIR (name loc) pano_id) q \<or> path_under TEMP_DIR q \<longrightarrow>
                  \<not> path_exists (rmtree e (rmtree e w2 (path_join3 OUT_DIR (name loc) pano_id)) TEMP_DIR) q) \<and>
               (\<forall>q. \<not> path_under (path_join3 OUT_DIR (name loc) pano_id) q \<and> \<not> path_under TEMP_DIR q \<longrightarrow>
                  map_of (files (rmtree e (rmtree e w2 (path_join3 OUT_DIR (name loc) pano_id)) TEMP_DIR)) q
                    = map_of (files w2) q)))"
proof -
  have c1: "(r = Inr None \<or> r = Inr (Some 0) \<longrightarrow> process_pano e w loc pano_id = (Inr (), w1))"
  proof
    assume "r = Inr None \<or> r = Inr (Some 0)"
    then show "process_pano e w loc pano_id = (Inr (), w1)"
    proof
      assume "r = Inr None"
      with faces show ?thesis by (simp add: process_pano_def)
    next
      assume "r = Inr (Some 0)"
      with faces show ?thesis by (simp add: process_pano_def)
    qed
  qed
  have c2: "(\<forall>err. r = Inl err \<longrightarrow> process_pano e w loc pano_id = (Inl err, w1))"
  proof (intro allI impI)
    fix err assume "r = Inl err"
    with faces show "process_pano e w loc pano_id = (Inl err, w1)"
      by (simp add: process_pano_def)
  qed
  have c3: "(\<forall>face_size err w2.
            r = Inr (Some face_size) \<and> face_size \<noteq> 0 \<and>
            merge_to_equirect e w1 (path_join3 OUT_DIR (name loc) pano_id)
              (path_join3 OUT_DIR (name loc) (pano_id @ ''.jpg'')) face_size = (Inl err, w2) \<longrightarrow>
            process_pano e w loc pano_id = (Inl err, w2))"
  proof (intro allI impI)
    fix face_size err w2
    assume "r = Inr (Some face_size) \<and> face_size \<noteq> 0 \<and>
            merge_to_equirect e w1 (path_join3 OUT_DIR (name loc) pano_id)
              (path_join3 OUT_DIR (name loc) (pano_id @ ''.jpg'')) face_size = (Inl err, w2)"
    with faces show "process_pano e w loc pano_id = (Inl err, w2)"
      by (simp add: process_pano_def Let_def)
  qed
  have c4: "(\<forall>face_size u w2.
            r = Inr (Some face_size) \<and> face_size \<noteq> 0 \<and>
            merge_to_equirect e w1 (path_join3 OUT_DIR (name loc) pano_id)
              (path_join3 OUT_DIR (name loc) (pano_id @ ''.jpg'')) face_size = (Inr u, w2) \<longrightarrow>
            process_pano e w loc pano_id
              = (Inr (), rmtree e (rmtree e w2 (path_join3 OUT_DIR (name loc) pano_id)) TEMP_DIR) \<and>
            ((\<forall>q. removable e q) \<longrightarrow>
               (\<forall>q. path_under (path_join3 OUT_DIR (name loc) pano_id) q \<or> path_under TEMP_DIR q \<longrightarrow>
                  \<not> path_exists (rmtree e (rmtree e w2 (path_join3 OUT_DIR (name loc) pano_id)) TEMP_DIR) q) \<and>
               (\<forall>q. \<not> path_under (path_join3 OUT_DIR (name loc) pano_id) q \<and> \<not> path_under TEMP_DIR q \<longrightarrow>
                  map_of (files (rmtree e (rmtree e w2 (path_join3 OUT_DIR (name loc) pano_id)) TEMP_DIR)) q
                    = map_of (files w2) q)))"
  proof (intro allI impI)
    fix face_size u w2
    let ?d = "path_join3 OUT_DIR (name loc) pano_id"
    let ?w = "rmtree e (rmtree e w2 ?d) TEMP_DIR"
    assume "r = Inr (Some face_size) \<and> face_size \<noteq> 0 \<and>
            merge_to_equirect e w1 (path_join3 OUT_DIR (name loc) pano_id)
              (path_join3 OUT_DIR (name loc) (pano_id @ ''.jpg'')) face_size = (Inr u, w2)"
    with faces have p: "process_pano e w loc pano_id = (Inr (), ?w)"
      by (simp add: process_pano_def Let_def)
    have purge: "(\<forall>q. removable e q) \<longrightarrow>
               (\<forall>q. path_under ?d q \<or> path_under TEMP_DIR q \<longrightarrow> \<not> path_exists ?w q) \<and>
               (\<forall>q. \<not> path_under ?d q \<and> \<not> path_under TEMP_DIR q \<longrightarrow>
                  map_of (files ?w) q = map_of (files w2) q)"
    proof (intro impI conjI allI)
      fix q assume rem: "\<forall>q. removable e q" and u: "path_under ?d q \<or> path_under TEMP_DIR q"
      show "\<not> path_exists ?w q"
      proof (cases "path_under TEMP_DIR q")
        case True
        with rem show ?thesis by (simp add: rmtree_purged)
      next
        case False
        with u have "path_under ?d q" by simp
        with rem have "\<not> path_exists (rmtree e w2 ?d) q" by (simp add: rmtree_purged)
        then show ?thesis by (rule rmtree_absent)
      qed
    next
      fix q assume "\<not> path_under ?d q \<and> \<not> path_under TEMP_DIR q"
      then show "map_of (files ?w) q = map_of (files w2) q"
        by (simp add: rmtree_frame)
    qed
    from p purge show "process_pano e w loc pano_id = (Inr (), ?w) \<and>
            ((\<forall>q. removable e q) \<longrightarrow>
               (\<forall>q. path_under ?d q \<or> path_under TEMP_DIR q \<longrightarrow> \<not> path_exists ?w q) \<and>
               (\<forall>q. \<not> path_under ?d q \<and> \<not> path_under TEMP_DIR q \<longrightarrow>
                  map_of (files ?w) q = map_of (files w2) q))"
      by (rule conjI)
  qed
  from c1 c2 c3 c4 show ?thesis by (intro conjI)
qed

text \<open>
  Face \<open>f\<close> is assembled and the other five face images are on the disk already: the
  projection is written, and the face images and the cached tiles are gone afterwards.
\<close>

theorem cleanup_after_projection_witness:
  "fst (process_pano one_face five_faces_on_disk two_panoramas ''p'') = Inr () \<and>
   is_file (snd (process_pano one_face five_faces_on_disk two_panoramas ''p'')) ''panoramas/a/p.jpg'' \<and>
   \<not> path_exists (snd (process_pano one_face five_faces_on_disk two_panoramas ''p''))
       ''temp_tiles/p/f/0_0_0.jpg'' \<and>
   \<not> path_exists (snd (process_pano one_face five_faces_on_disk two_panoramas ''p''))
       ''panoramas/a/p/f.jpg''"
proof -
  let ?d = "path_join3 OUT_DIR (name two_panoramas) ''p''"
  let ?q = "path_join3 OUT_DIR (name two_panoramas) (''p'' @ ''.jpg'')"
  let ?fl = "faces_loop one_face five_faces_on_disk (baseUrl two_panoramas) ''p''
               (build_version_suffix (version two_panoramas)) ?d FACES None"
  let ?m = "merge_to_equirect one_face (snd ?fl) ?d ?q 512"
  let ?p = "process_pano one_face five_faces_on_disk two_panoramas ''p''"
  have a: "fst ?p = Inr ()" by code_simp
  have b: "is_file (snd ?p) ''panoramas/a/p.jpg''" by code_simp
  have "fst ?fl = Inr (Some 512)" by code_simp
  then have fl: "?fl = (Inr (Some 512), snd ?fl)" by (simp add: prod_eq_iff)
  have "fst ?m = Inr ()" by code_simp
  then obtain w2 where m: "?m = (Inr (), w2)" by (cases ?m) auto
  have rem: "\<forall>q. removable one_face q" by (simp add: one_face_def good_disk_def)
  have u1: "path_under ?d ''panoramas/a/p/f.jpg'' \<or> path_under TEMP_DIR ''panoramas/a/p/f.jpg''"
    by code_simp
  have u2: "path_under ?d ''temp_tiles/p/f/0_0_0.jpg'' \<or>
            path_under TEMP_DIR ''temp_tiles/p/f/0_0_0.jpg''"
    by code_simp
  have pre: "Inr (Some (512::int)) = (Inr (Some 512) :: error + int option) \<and> (512::int) \<noteq> 0 \<and>
             ?m = (Inr (), w2)"
    using m by simp
  note c = cleanup_after_projection [OF fl, THEN conjunct2, THEN conjunct2, THEN conjunct2,
      THEN spec, THEN spec, THEN spec, of 512 "()" w2]
  note d = mp [OF c pre]
  note p = conjunct1 [OF d]
  note purge = mp [OF conjunct2 [OF d] rem, THEN conjunct1]
  from p have sp: "snd ?p = rmtree one_face (rmtree one_face w2 ?d) TEMP_DIR" by simp
  have g1: "\<not> path_exists (snd ?p) ''panoramas/a/p/f.jpg''"
    unfolding sp by (rule mp [OF spec [OF purge] u1])
  have g2: "\<not> path_exists (snd ?p) ''temp_tiles/p/f/0_0_0.jpg''"
    unfolding sp by (rule mp [OF spec [OF purge] u2])
  from a b g1 g2 show ?thesis by (intro conjI)
qed

end
